theory Spec2Isabelle
  imports Complex_Main "HOL-Library.AList" "HOL-Library.Sublist"
begin

section \<open>Coverage test (the k6 script with endpoint coverage): state\<close>

text \<open>
  One entry of the object literal \<open>endpointCoverage\<close>:
  \<open>{ hits: 0, success: 0, errors: 0, totalResponseTime: 0 }\<close>.
  The counters only ever receive \<open>++\<close> and the latency sum only receives
  differences of \<open>Date.now()\<close>, so all four are integers (exact in a JS number
  below \<open>2^53\<close>).
\<close>

record stats =
  hits :: int
  success :: int
  errors :: int
  totalResponseTime :: int

text \<open>
  The module-level state of the script: the coverage object (an association list, in
  the insertion order that \<open>Object.entries\<close> enumerates) and the custom metrics.
  A \<open>Counter\<close> is the sum of what was added, a \<open>Trend\<close> and a \<open>Rate\<close> are the
  samples that were added, in order. \<open>requests\<close> is the log of HTTP requests issued.
\<close>

record vu_state =
  endpointCoverage :: "(string \<times> stats) list"
  errorRate :: "int list"
  endpointHits :: int
  endpointResponseTime :: "int list"
  successfulRequests :: int
  failedRequests :: int
  requests :: "string list"

definition zero_stats :: stats where
  "zero_stats = \<lparr>hits = 0, success = 0, errors = 0, totalResponseTime = 0\<rparr>"

definition declared_endpoints :: "string list" where
  "declared_endpoints =
     [''GET /'', ''GET /user/users'', ''POST /user/users'', ''GET /user/users/:id'',
      ''POST /mqtt/pub'', ''GET /mqtt/consume'', ''POST /channel/pub'']"

definition initial_state :: vu_state where
  "initial_state =
     \<lparr>endpointCoverage = map (\<lambda>k. (k, zero_stats)) declared_endpoints,
      errorRate = [], endpointHits = 0, endpointResponseTime = [],
      successfulRequests = 0, failedRequests = 0, requests = []\<rparr>"

subsection \<open>trackEndpoint\<close>

text \<open>
  \<open>if (endpointCoverage[endpoint])\<close> is a property read: it finds an own property
  (one of the declared keys, whose value is an object and so truthy), or a property that
  the object literal inherits from its prototype (\<open>'toString'\<close>, \<open>'constructor'\<close>, ...),
  or nothing. Which names the prototype answers with a truthy object belongs to the
  JavaScript runtime, so it is the parameter \<open>inherited\<close>. On an inherited object the
  body runs as well: its \<open>++\<close> and \<open>+=\<close> write to that object and to no entry of
  \<open>endpointCoverage\<close>, and one of the two request counters is incremented.
\<close>

definition trackEndpoint ::
    "(string \<Rightarrow> bool) \<Rightarrow> string \<Rightarrow> bool \<Rightarrow> int \<Rightarrow> vu_state \<Rightarrow> vu_state" where
  "trackEndpoint inherited endpoint ok responseTime st =
     (let st1 =
        (case map_of (endpointCoverage st) endpoint of
           Some e \<Rightarrow>
             (let e1 = e\<lparr>hits := hits e + 1,
                         totalResponseTime := totalResponseTime e + responseTime\<rparr>
              in if ok
                 then st\<lparr>endpointCoverage :=
                            AList.update endpoint (e1\<lparr>success := success e1 + 1\<rparr>)
                              (endpointCoverage st),
                          successfulRequests := successfulRequests st + 1\<rparr>
                 else st\<lparr>endpointCoverage :=
                            AList.update endpoint (e1\<lparr>errors := errors e1 + 1\<rparr>)
                              (endpointCoverage st),
                          failedRequests := failedRequests st + 1\<rparr>)
         | None \<Rightarrow>
             if inherited endpoint
             then (if ok then st\<lparr>successfulRequests := successfulRequests st + 1\<rparr>
                   else st\<lparr>failedRequests := failedRequests st + 1\<rparr>)
             else st)
      in st1\<lparr>endpointHits := endpointHits st1 + 1,
              endpointResponseTime := endpointResponseTime st1 @ [responseTime]\<rparr>)"

text \<open>A sequence of calls \<open>(endpoint, success, responseTime)\<close>, in order.\<close>

definition trackAll ::
    "(string \<Rightarrow> bool) \<Rightarrow> (string \<times> bool \<times> int) list \<Rightarrow> vu_state \<Rightarrow> vu_state" where
  "trackAll inherited calls st =
     foldl (\<lambda>s (endpoint, ok, responseTime). trackEndpoint inherited endpoint ok responseTime s)
       st calls"

definition stats_ok :: "stats \<Rightarrow> bool" where
  "stats_ok e \<longleftrightarrow>
     hits e = success e + errors e \<and> 0 \<le> hits e \<and> 0 \<le> success e \<and> 0 \<le> errors e \<and>
     0 \<le> totalResponseTime e"


section \<open>HTTP exchanges and checks\<close>

text \<open>
  What a scenario observes of one HTTP exchange: the status, \<open>r.timings.duration\<close>
  (milliseconds, a finite JS number), the body (\<open>None\<close> for \<open>null\<close>), and
  \<open>elapsed\<close>, the difference of the two \<open>Date.now()\<close> readings that the coverage
  script takes around the request. The server is not part of the program: each scenario
  takes the responses that its requests would receive.
\<close>

record response =
  status :: int
  timings_duration :: rat
  body :: "string option"
  elapsed :: int

text \<open>\<open>check(val, sets)\<close> of k6 is true iff every predicate of \<open>sets\<close> holds of \<open>val\<close>.\<close>

definition check :: "response \<Rightarrow> (response \<Rightarrow> bool) list \<Rightarrow> bool" where
  "check r sets = list_all (\<lambda>p. p r) sets"

text \<open>\<open>r.body && r.body.includes(s)\<close>: a null or empty body is falsy.\<close>

definition body_includes :: "string \<Rightarrow> response \<Rightarrow> bool" where
  "body_includes s r = (case body r of None \<Rightarrow> False | Some b \<Rightarrow> b \<noteq> [] \<and> sublist s b)"

section \<open>Coverage test: scenarios\<close>

definition healthCheck_checks :: "(response \<Rightarrow> bool) list" where
  "healthCheck_checks =
     [\<lambda>r. status r = 200, \<lambda>r. timings_duration r < 100, body_includes ''Hello'']"

definition getUsers_checks :: "(response \<Rightarrow> bool) list" where
  "getUsers_checks = [\<lambda>r. status r = 200, \<lambda>r. timings_duration r < 200]"

definition createUser_checks :: "(response \<Rightarrow> bool) list" where
  "createUser_checks =
     [\<lambda>r. status r = 200 \<or> status r = 201, \<lambda>r. timings_duration r < 300]"

definition getUser_checks :: "(response \<Rightarrow> bool) list" where
  "getUser_checks = [\<lambda>r. timings_duration r < 200]"

definition mqttPublish_checks :: "(response \<Rightarrow> bool) list" where
  "mqttPublish_checks = [\<lambda>r. status r = 200, \<lambda>r. timings_duration r < 500]"

definition mqttConsume_checks :: "(response \<Rightarrow> bool) list" where
  "mqttConsume_checks = [\<lambda>r. timings_duration r < 300]"

definition channelPublish_checks :: "(response \<Rightarrow> bool) list" where
  "channelPublish_checks =
     [\<lambda>r. timings_duration r < 400, \<lambda>r. 200 \<le> status r \<and> status r < 300]"

definition request :: "string \<Rightarrow> vu_state \<Rightarrow> vu_state" where
  "request r st = st\<lparr>requests := requests st @ [r]\<rparr>"

definition errorRate_add :: "int \<Rightarrow> vu_state \<Rightarrow> vu_state" where
  "errorRate_add v st = st\<lparr>errorRate := errorRate st @ [v]\<rparr>"

definition testHealthCheck ::
    "(string \<Rightarrow> bool) \<Rightarrow> response \<Rightarrow> vu_state \<Rightarrow> vu_state" where
  "testHealthCheck inherited response st =
     (let st1 = request ''GET /'' st;
          ok = check response healthCheck_checks;
          st2 = trackEndpoint inherited ''GET /'' ok (elapsed response) st1
      in if \<not> ok then errorRate_add 1 st2 else st2)"

text \<open>
  The three steps of \<open>testUserOperations\<close>; the two \<open>return\<close> statements are the two
  branches that stop. The third step records no \<open>errors\<close> sample when its check fails.
\<close>

definition testUserOperations ::
    "(string \<Rightarrow> bool) \<Rightarrow> response \<Rightarrow> response \<Rightarrow> response \<Rightarrow> vu_state \<Rightarrow> vu_state" where
  "testUserOperations inherited response1 response2 response3 st =
     (let st1 = request ''GET /user/users'' st;
          ok1 = check response1 getUsers_checks;
          st2 = trackEndpoint inherited ''GET /user/users'' ok1 (elapsed response1) st1
      in if \<not> ok1 then errorRate_add 1 st2
         else
           (let st3 = request ''POST /user/users'' st2;
                ok2 = check response2 createUser_checks;
                st4 = trackEndpoint inherited ''POST /user/users'' ok2 (elapsed response2) st3
            in if \<not> ok2 then errorRate_add 1 st4
               else
                 (let st5 = request ''GET /user/users/1'' st4;
                      ok3 = check response3 getUser_checks
                  in trackEndpoint inherited ''GET /user/users/:id'' ok3
                       (elapsed response3) st5)))"

definition testMqttOperations ::
    "(string \<Rightarrow> bool) \<Rightarrow> response \<Rightarrow> response \<Rightarrow> vu_state \<Rightarrow> vu_state" where
  "testMqttOperations inherited response1 response2 st =
     (let st1 = request ''POST /mqtt/pub'' st;
          ok1 = check response1 mqttPublish_checks;
          st2 = trackEndpoint inherited ''POST /mqtt/pub'' ok1 (elapsed response1) st1
      in if \<not> ok1 then errorRate_add 1 st2
         else
           (let st3 = request ''GET /mqtt/consume'' st2;
                ok2 = check response2 mqttConsume_checks;
                st4 = trackEndpoint inherited ''GET /mqtt/consume'' ok2 (elapsed response2) st3
            in if \<not> ok2 then errorRate_add 1 st4 else st4))"

definition testChannelOperations ::
    "(string \<Rightarrow> bool) \<Rightarrow> response \<Rightarrow> vu_state \<Rightarrow> vu_state" where
  "testChannelOperations inherited response st =
     (let st1 = request ''POST /channel/pub'' st;
          ok = check response channelPublish_checks;
          st2 = trackEndpoint inherited ''POST /channel/pub'' ok (elapsed response) st1
      in if \<not> ok then errorRate_add 1 st2 else st2)"

subsection \<open>The dispatcher\<close>

datatype scenario = HealthCheck | UserOperations | MqttOperations | ChannelOperations

text \<open>
  The \<open>if\<close>/\<open>else if\<close> chain of the default function, on the value of
  \<open>Math.random()\<close>. The draw is a real number; the three literals are exact doubles.
\<close>

definition selectScenario :: "real \<Rightarrow> scenario" where
  "selectScenario testScenario =
     (if testScenario < 0.25 then HealthCheck
      else if testScenario < 0.5 then UserOperations
      else if testScenario < 0.75 then MqttOperations
      else ChannelOperations)"

text \<open>The percentages that the comments of the dispatcher declare.\<close>

definition declared_weight :: "scenario \<Rightarrow> real" where
  "declared_weight s = 25"

text \<open>
  One iteration of a virtual user: the draw and the responses that the first, second
  and third request of the iteration would receive. The final \<open>sleep\<close> changes no state.
\<close>

record iteration =
  draw :: real
  reply1 :: response
  reply2 :: response
  reply3 :: response

definition default_iteration ::
    "(string \<Rightarrow> bool) \<Rightarrow> iteration \<Rightarrow> vu_state \<Rightarrow> vu_state" where
  "default_iteration inherited it st =
     (case selectScenario (draw it) of
        HealthCheck \<Rightarrow> testHealthCheck inherited (reply1 it) st
      | UserOperations \<Rightarrow>
          testUserOperations inherited (reply1 it) (reply2 it) (reply3 it) st
      | MqttOperations \<Rightarrow> testMqttOperations inherited (reply1 it) (reply2 it) st
      | ChannelOperations \<Rightarrow> testChannelOperations inherited (reply1 it) st)"


section \<open>Basic performance test: scenarios and dispatcher\<close>

text \<open>
  The basic script has one custom metric, the \<open>Rate\<close> named \<open>errors\<close>, and no coverage
  object. Its state is the samples of that metric and the log of requests.
\<close>

record perf_state =
  perf_errorRate :: "int list"
  perf_requests :: "string list"

definition perf_initial :: perf_state where
  "perf_initial = \<lparr>perf_errorRate = [], perf_requests = []\<rparr>"

definition perf_request :: "string \<Rightarrow> perf_state \<Rightarrow> perf_state" where
  "perf_request r st = st\<lparr>perf_requests := perf_requests st @ [r]\<rparr>"

definition perf_errorRate_add :: "int \<Rightarrow> perf_state \<Rightarrow> perf_state" where
  "perf_errorRate_add v st = st\<lparr>perf_errorRate := perf_errorRate st @ [v]\<rparr>"

definition perf_channelPublish_checks :: "(response \<Rightarrow> bool) list" where
  "perf_channelPublish_checks = [\<lambda>r. timings_duration r < 400]"

definition perf_testHealthCheck :: "response \<Rightarrow> perf_state \<Rightarrow> perf_state" where
  "perf_testHealthCheck response st =
     (let st1 = perf_request ''GET /'' st;
          ok = check response healthCheck_checks
      in if \<not> ok then perf_errorRate_add 1 st1 else st1)"

definition perf_testUserOperations ::
    "response \<Rightarrow> response \<Rightarrow> response \<Rightarrow> perf_state \<Rightarrow> perf_state" where
  "perf_testUserOperations response1 response2 response3 st =
     (let st1 = perf_request ''GET /user/users'' st;
          ok1 = check response1 getUsers_checks
      in if \<not> ok1 then perf_errorRate_add 1 st1
         else
           (let st2 = perf_request ''POST /user/users'' st1;
                ok2 = check response2 createUser_checks
            in if \<not> ok2 then perf_errorRate_add 1 st2
               else perf_request ''GET /user/users/1'' st2))"

definition perf_testMqttOperations ::
    "response \<Rightarrow> response \<Rightarrow> perf_state \<Rightarrow> perf_state" where
  "perf_testMqttOperations response1 response2 st =
     (let st1 = perf_request ''POST /mqtt/pub'' st;
          ok1 = check response1 mqttPublish_checks
      in if \<not> ok1 then perf_errorRate_add 1 st1
         else
           (let st2 = perf_request ''GET /mqtt/consume'' st1;
                ok2 = check response2 mqttConsume_checks
            in if \<not> ok2 then perf_errorRate_add 1 st2 else st2))"

definition perf_testChannelOperations :: "response \<Rightarrow> perf_state \<Rightarrow> perf_state" where
  "perf_testChannelOperations response st =
     (let st1 = perf_request ''POST /channel/pub'' st;
          ok = check response perf_channelPublish_checks
      in if \<not> ok then perf_errorRate_add 1 st1 else st1)"

text \<open>
  The literals \<open>0.3\<close>, \<open>0.6\<close> and \<open>0.8\<close> of the basic script are not binary fractions:
  the comparison is with the IEEE doubles that they denote. (\<open>0.25\<close>, \<open>0.5\<close> and
  \<open>0.75\<close> of the coverage script are exact.)
\<close>

definition double_0_3 :: real where
  "double_0_3 = 5404319552844595 / 18014398509481984"

definition double_0_6 :: real where
  "double_0_6 = 5404319552844595 / 9007199254740992"

definition double_0_8 :: real where
  "double_0_8 = 7205759403792794 / 9007199254740992"

definition perf_selectScenario :: "real \<Rightarrow> scenario" where
  "perf_selectScenario testScenario =
     (if testScenario < double_0_3 then HealthCheck
      else if testScenario < double_0_6 then UserOperations
      else if testScenario < double_0_8 then MqttOperations
      else ChannelOperations)"

fun perf_declared_weight :: "scenario \<Rightarrow> real" where
  "perf_declared_weight HealthCheck = 30"
| "perf_declared_weight UserOperations = 30"
| "perf_declared_weight MqttOperations = 20"
| "perf_declared_weight ChannelOperations = 20"

definition perf_default_iteration :: "iteration \<Rightarrow> perf_state \<Rightarrow> perf_state" where
  "perf_default_iteration it st =
     (case perf_selectScenario (draw it) of
        HealthCheck \<Rightarrow> perf_testHealthCheck (reply1 it) st
      | UserOperations \<Rightarrow>
          perf_testUserOperations (reply1 it) (reply2 it) (reply3 it) st
      | MqttOperations \<Rightarrow> perf_testMqttOperations (reply1 it) (reply2 it) st
      | ChannelOperations \<Rightarrow> perf_testChannelOperations (reply1 it) st)"

section \<open>MQTT publish test: the default function\<close>

record mqtt_state =
  mqtt_errorRate :: "int list"
  mqtt_successfulRequests :: int
  mqtt_failedRequests :: int
  mqttPublishResponseTime :: "int list"
  mqtt_requests :: "string list"

definition mqtt_initial :: mqtt_state where
  "mqtt_initial =
     \<lparr>mqtt_errorRate = [], mqtt_successfulRequests = 0, mqtt_failedRequests = 0,
      mqttPublishResponseTime = [], mqtt_requests = []\<rparr>"

definition mqtt_checks :: "(response \<Rightarrow> bool) list" where
  "mqtt_checks =
     [\<lambda>r. status r = 200, \<lambda>r. timings_duration r < 1000,
      \<lambda>r. (case body r of None \<Rightarrow> False | Some b \<Rightarrow> b \<noteq> [] \<and> 0 < length b),
      body_includes ''success'']"

definition mqtt_default_iteration :: "response \<Rightarrow> mqtt_state \<Rightarrow> mqtt_state" where
  "mqtt_default_iteration response st =
     (let st1 = st\<lparr>mqtt_requests := mqtt_requests st @ [''POST /mqtt/publish'']\<rparr>;
          st2 = st1\<lparr>mqttPublishResponseTime :=
                      mqttPublishResponseTime st1 @ [elapsed response]\<rparr>;
          ok = check response mqtt_checks
      in if ok then st2\<lparr>mqtt_successfulRequests := mqtt_successfulRequests st2 + 1\<rparr>
         else st2\<lparr>mqtt_failedRequests := mqtt_failedRequests st2 + 1,
                  mqtt_errorRate := mqtt_errorRate st2 @ [1]\<rparr>)"

section \<open>setup and the run\<close>

datatype error = Error string

text \<open>
  Each script's \<open>setup\<close> sends \<open>GET /\<close> and throws unless the status is 200. What it
  returns otherwise differs per script; \<open>testStartTime\<close> is the reading of \<open>Date.now()\<close>.
\<close>

record setup_data =
  serverReady :: bool
  testStartTime :: int
  endpoints :: "string list"

definition cov_setup :: "response \<Rightarrow> int \<Rightarrow> vu_state \<Rightarrow> (error + setup_data) \<times> vu_state" where
  "cov_setup response now st =
     (let st1 = request ''GET /'' st
      in if status response \<noteq> 200
         then (Inl (Error ''Server is not responding correctly''), st1)
         else (Inr \<lparr>serverReady = True, testStartTime = now,
                     endpoints = map fst (endpointCoverage st1)\<rparr>, st1))"

definition perf_setup :: "response \<Rightarrow> perf_state \<Rightarrow> (error + bool) \<times> perf_state" where
  "perf_setup response st =
     (let st1 = perf_request ''GET /'' st
      in if status response \<noteq> 200
         then (Inl (Error ''Server is not responding correctly''), st1)
         else (Inr True, st1))"

definition mqtt_setup :: "response \<Rightarrow> int \<Rightarrow> mqtt_state \<Rightarrow> (error + int) \<times> mqtt_state" where
  "mqtt_setup response now st =
     (let st1 = st\<lparr>mqtt_requests := mqtt_requests st @ [''GET /'']\<rparr>
      in if status response \<noteq> 200
         then (Inl (Error ''Server is not responding correctly''), st1)
         else (Inr now, st1))"

text \<open>
  Modelled from the spec: the run driver, which is the k6 runtime and not part of the
  repository. "Target-unreachable errors (initial reachability check fails) - fatal, run
  aborts before spawning workers": when \<open>setup\<close> throws, no iteration of the default
  function runs; otherwise the iterations run on the state that \<open>setup\<close> left. The result
  is the outcome of \<open>setup\<close>, the number of iterations executed and the final state.
\<close>

definition run ::
    "('s \<Rightarrow> (error + 'd) \<times> 's) \<Rightarrow> ('i \<Rightarrow> 's \<Rightarrow> 's) \<Rightarrow> 'i list \<Rightarrow> 's \<Rightarrow>
     (error + 'd) \<times> nat \<times> 's" where
  "run setup_fn default_fn its st =
     (case setup_fn st of
        (Inl e, st1) \<Rightarrow> (Inl e, 0, st1)
      | (Inr d, st1) \<Rightarrow> (Inr d, length its, foldl (\<lambda>s i. default_fn i s) st1 its))"

section \<open>The Rate metric and its threshold\<close>

text \<open>
  A k6 \<open>Rate\<close> reports the fraction of the added values that are non-zero, and 0 when
  nothing was added. Both scripts with scenarios declare \<open>errors: ['rate<0.05']\<close>.
\<close>

definition rate :: "int list \<Rightarrow> rat" where
  "rate samples =
     (if samples = [] then 0
      else of_nat (length (filter (\<lambda>v. v \<noteq> 0) samples)) / of_nat (length samples))"

definition errors_threshold :: "int list \<Rightarrow> bool" where
  "errors_threshold samples \<longleftrightarrow> rate samples < 5 / 100"


section \<open>JavaScript numbers in the summary handlers\<close>

text \<open>
  A JS number is a finite value, \<open>NaN\<close> or an infinity. Finite values are rationals and
  \<open>/\<close> and \<open>*\<close> are exact on them: the rounding of IEEE doubles and the sign of zero are
  not modelled. Division by zero and \<open>NaN\<close> behave as in JavaScript.
\<close>

datatype jsnum = Fin rat | NaN | PInf | NInf

fun js_div :: "jsnum \<Rightarrow> jsnum \<Rightarrow> jsnum" where
  "js_div (Fin a) (Fin b) =
     (if b \<noteq> 0 then Fin (a / b) else if a = 0 then NaN else if 0 < a then PInf else NInf)"
| "js_div NaN _ = NaN"
| "js_div _ NaN = NaN"
| "js_div (Fin a) _ = Fin 0"
| "js_div PInf (Fin b) = (if 0 \<le> b then PInf else NInf)"
| "js_div NInf (Fin b) = (if 0 \<le> b then NInf else PInf)"
| "js_div _ _ = NaN"

fun js_mul :: "jsnum \<Rightarrow> jsnum \<Rightarrow> jsnum" where
  "js_mul (Fin a) (Fin b) = Fin (a * b)"
| "js_mul NaN _ = NaN"
| "js_mul _ NaN = NaN"
| "js_mul (Fin a) PInf = (if a = 0 then NaN else if 0 < a then PInf else NInf)"
| "js_mul (Fin a) NInf = (if a = 0 then NaN else if 0 < a then NInf else PInf)"
| "js_mul PInf (Fin b) = (if b = 0 then NaN else if 0 < b then PInf else NInf)"
| "js_mul NInf (Fin b) = (if b = 0 then NaN else if 0 < b then NInf else PInf)"
| "js_mul PInf PInf = PInf"
| "js_mul NInf NInf = PInf"
| "js_mul _ _ = NInf"

fun js_lt :: "jsnum \<Rightarrow> jsnum \<Rightarrow> bool" where
  "js_lt (Fin a) (Fin b) = (a < b)"
| "js_lt NaN _ = False"
| "js_lt _ NaN = False"
| "js_lt _ NInf = False"
| "js_lt PInf _ = False"
| "js_lt _ _ = True"

text \<open>\<open>ToNumber\<close> of a property that may be \<open>undefined\<close>, and \<open>x || 0\<close> on it.\<close>

definition toNumber :: "rat option \<Rightarrow> jsnum" where
  "toNumber v = (case v of None \<Rightarrow> NaN | Some x \<Rightarrow> Fin x)"

definition or0 :: "rat option \<Rightarrow> rat" where
  "or0 v = (case v of None \<Rightarrow> 0 | Some x \<Rightarrow> x)"

subsection \<open>Number.prototype.toFixed\<close>

definition digit :: "nat \<Rightarrow> char" where
  "digit d = ''0123456789'' ! d"

fun digits_of :: "nat \<Rightarrow> string" where
  "digits_of n = (if n < 10 then [digit n] else digits_of (n div 10) @ [digit (n mod 10)])"

declare digits_of.simps [simp del]

text \<open>
  \<open>x.toFixed(f)\<close> on a finite \<open>x\<close>: the sign, then the integer \<open>n\<close> nearest to
  \<open>|x| * 10^f\<close> (the larger one at a tie) written in decimal, padded with zeros to
  \<open>f + 1\<close> digits, with a point before the last \<open>f\<close> digits. From \<open>10^21\<close> on
  JavaScript switches to exponent notation, which is not modelled.
\<close>

definition toFixed_rat :: "nat \<Rightarrow> rat \<Rightarrow> string" where
  "toFixed_rat f x =
     (let n = nat \<lfloor>\<bar>x\<bar> * 10 ^ f + 1 / 2\<rfloor>;
          m = digits_of n;
          m1 = replicate (f + 1 - length m) (CHR ''0'') @ m;
          k = length m1
      in (if x < 0 then ''-'' else [])
         @ (if f = 0 then m1 else take (k - f) m1 @ ''.'' @ drop (k - f) m1))"

definition toFixed :: "nat \<Rightarrow> jsnum \<Rightarrow> string" where
  "toFixed f x =
     (case x of Fin r \<Rightarrow> toFixed_rat f r | NaN \<Rightarrow> ''NaN'' | PInf \<Rightarrow> ''Infinity''
      | NInf \<Rightarrow> ''-Infinity'')"

section \<open>The summary that k6 passes to handleSummary\<close>

text \<open>
  \<open>data.metrics\<close> maps a metric name to an object. The coverage script reads numeric
  properties of that object itself (\<open>data.metrics.iterations?.count\<close>), the MQTT script
  reads those of its \<open>values\<close> object (\<open>data.metrics.http_reqs?.values?.count\<close>). A
  missing metric, \<open>values\<close> object or property reads as \<open>undefined\<close> (\<open>None\<close>).
  \<open>testRunDurationMs\<close> is \<open>data.state.testRunDurationMs\<close>.
\<close>

record metric =
  props :: "(string \<times> rat) list"
  vals :: "(string \<times> rat) list option"

record summary =
  metrics :: "(string \<times> metric) list"
  testRunDurationMs :: rat

definition metric_prop :: "summary \<Rightarrow> string \<Rightarrow> string \<Rightarrow> rat option" where
  "metric_prop data m p =
     (case map_of (metrics data) m of None \<Rightarrow> None | Some x \<Rightarrow> map_of (props x) p)"

definition metric_value :: "summary \<Rightarrow> string \<Rightarrow> string \<Rightarrow> rat option" where
  "metric_value data m p =
     (case map_of (metrics data) m of
        None \<Rightarrow> None
      | Some x \<Rightarrow> (case vals x of None \<Rightarrow> None | Some vs \<Rightarrow> map_of vs p))"

text \<open>
  \<open>new Date().toISOString().replace(/[:.]/g, '-')\<close>, on the ISO string of the clock.
\<close>

definition dashed :: "string \<Rightarrow> string" where
  "dashed s = map (\<lambda>c. if c = CHR '':'' \<or> c = CHR ''.'' then CHR ''-'' else c) s"


section \<open>Coverage test: handleSummary\<close>

record cov_testInfo =
  cov_timestamp :: string
  cov_duration :: rat
  cov_iterations :: rat
  cov_vus :: rat

text \<open>One value of \<open>coverageReport.endpointCoverage\<close>.\<close>

record endpoint_report =
  rep_hits :: int
  successRate :: string
  avgResponseTime :: string
  rep_errors :: int
  tested :: bool

record cov_summary =
  totalEndpoints :: nat
  testedEndpoints :: nat
  coveragePercentage :: string

record coverageReport =
  rep_testInfo :: cov_testInfo
  rep_endpointCoverage :: "(string \<times> endpoint_report) list"
  rep_summary :: cov_summary

text \<open>The body of the loop over \<open>Object.entries(endpointCoverage)\<close>, for one entry.\<close>

definition endpoint_report_of :: "stats \<Rightarrow> endpoint_report" where
  "endpoint_report_of e =
     \<lparr>rep_hits = hits e,
      successRate =
        (if 0 < hits e
         then toFixed 2 (js_mul (js_div (Fin (of_int (success e))) (Fin (of_int (hits e))))
                           (Fin 100))
         else ''0''),
      avgResponseTime =
        (if 0 < hits e
         then toFixed 2 (js_div (Fin (of_int (totalResponseTime e))) (Fin (of_int (hits e))))
         else ''0''),
      rep_errors = errors e,
      tested = (0 < hits e)\<rparr>"

definition build_coverageReport :: "summary \<Rightarrow> string \<Rightarrow> vu_state \<Rightarrow> coverageReport" where
  "build_coverageReport data isoNow st =
     (let testStartTime = dashed isoNow;
          total = length (map fst (endpointCoverage st));
          testedCount = length (filter (\<lambda>e. 0 < hits e) (map snd (endpointCoverage st)))
      in \<lparr>rep_testInfo =
            \<lparr>cov_timestamp = testStartTime,
             cov_duration = or0 (metric_prop data ''iteration_duration'' ''avg''),
             cov_iterations = or0 (metric_prop data ''iterations'' ''count''),
             cov_vus = or0 (metric_prop data ''vus_max'' ''value'')\<rparr>,
          rep_endpointCoverage =
            map (\<lambda>(endpoint, e). (endpoint, endpoint_report_of e)) (endpointCoverage st),
          rep_summary =
            \<lparr>totalEndpoints = total,
             testedEndpoints = testedCount,
             coveragePercentage =
               toFixed 2 (js_mul (js_div (Fin (of_nat testedCount)) (Fin (of_nat total)))
                            (Fin 100))\<rparr>\<rparr>)"

text \<open>
  The files that \<open>handleSummary\<close> returns. \<open>htmlReport\<close>, \<open>textSummary\<close> and
  \<open>JSON.stringify\<close> are library functions: an artifact is the call that produces it,
  with its arguments.
\<close>

datatype artifact =
    HtmlReport summary string string
  | TextSummary summary string bool
  | JsonData summary
  | JsonCoverage coverageReport

definition handleSummary :: "summary \<Rightarrow> string \<Rightarrow> vu_state \<Rightarrow> (string \<times> artifact) list" where
  "handleSummary data isoNow st =
     [(''reports/performance-report.html'',
         HtmlReport data ''Rust API Performance Test Report''
           ''Comprehensive performance analysis with endpoint coverage''),
      (''reports/performance-summary.txt'', TextSummary data '' '' False),
      (''reports/performance-data.json'', JsonData data),
      (''reports/endpoint-coverage.json'', JsonCoverage (build_coverageReport data isoNow st)),
      (''stdout'', TextSummary data '' '' True)]"

section \<open>MQTT publish test: handleSummary\<close>

text \<open>
  A displayed value is a string, or the number \<open>0\<close> that \<open>|| 0\<close> substitutes.
  \<open>x?.toFixed(2) || 0\<close> on a property \<open>x\<close> that may be undefined: \<open>toFixed\<close> returns a
  non-empty string, which is truthy.
\<close>

datatype jsval = Str string | Num rat

definition toFixed_or0 :: "rat option \<Rightarrow> jsval" where
  "toFixed_or0 v = (case v of None \<Rightarrow> Num 0 | Some x \<Rightarrow> Str (toFixed_rat 2 x))"

record mqtt_testInfo =
  ti_endpoint :: string
  ti_timestamp :: string
  ti_testDate :: string
  ti_duration :: string
  ti_iterations :: rat
  ti_maxVus :: rat
  ti_totalRequests :: rat
  ti_successfulRequests :: rat
  ti_failedRequests :: rat
  ti_successRate :: string

record responseTime =
  rt_avg :: jsval
  rt_min :: jsval
  rt_max :: jsval
  rt_p50 :: jsval
  rt_p90 :: jsval
  rt_p95 :: jsval
  rt_p99 :: jsval

record mqtt_metrics =
  m_responseTime :: responseTime
  received :: jsval
  sent :: jsval
  errors_rate :: jsval
  errors_count :: rat

record thresholds =
  p95_under_1000ms :: bool
  p99_under_2000ms :: bool
  error_rate_under_10pct :: bool

record performanceData =
  pd_testInfo :: mqtt_testInfo
  pd_metrics :: mqtt_metrics
  pd_thresholds :: thresholds

text \<open>
  The readings of the clock: \<open>handleSummary\<close> calls \<open>new Date()\<close> four times, for
  \<open>toISOString\<close>, \<open>toLocaleString\<close>, \<open>toISOString\<close> and \<open>toTimeString\<close>.
\<close>

record clock =
  isoString1 :: string
  localeString :: string
  isoString2 :: string
  timeString :: string

definition reportId :: "clock \<Rightarrow> string" where
  "reportId clk =
     ''mqtt_test_'' @ filter (\<lambda>c. c \<noteq> CHR ''-'') (take 10 (isoString2 clk)) @ ''_''
       @ filter (\<lambda>c. c \<noteq> CHR '':'') (take 8 (timeString clk))"

definition build_performanceData :: "summary \<Rightarrow> clock \<Rightarrow> performanceData" where
  "build_performanceData data clk =
     (let httpReqs = or0 (metric_value data ''http_reqs'' ''count'');
          httpReqFailed = or0 (metric_value data ''http_req_failed'' ''count'');
          httpSuccessRate =
            (if 0 < httpReqs
             then toFixed 2 (js_mul (js_div (Fin (httpReqs - httpReqFailed)) (Fin httpReqs))
                               (Fin 100))
             else ''0'')
      in \<lparr>pd_testInfo =
            \<lparr>ti_endpoint = ''/mqtt/publish'',
             ti_timestamp = dashed (isoString1 clk),
             ti_testDate = localeString clk,
             ti_duration = toFixed 2 (js_div (Fin (testRunDurationMs data)) (Fin 1000)),
             ti_iterations = or0 (metric_value data ''iterations'' ''count''),
             ti_maxVus = or0 (metric_value data ''vus_max'' ''max''),
             ti_totalRequests = httpReqs,
             ti_successfulRequests = httpReqs - httpReqFailed,
             ti_failedRequests = httpReqFailed,
             ti_successRate = httpSuccessRate\<rparr>,
          pd_metrics =
            \<lparr>m_responseTime =
               \<lparr>rt_avg = toFixed_or0 (metric_value data ''http_req_duration'' ''avg''),
                rt_min = toFixed_or0 (metric_value data ''http_req_duration'' ''min''),
                rt_max = toFixed_or0 (metric_value data ''http_req_duration'' ''max''),
                rt_p50 = toFixed_or0 (metric_value data ''http_req_duration'' ''p50''),
                rt_p90 = toFixed_or0 (metric_value data ''http_req_duration'' ''p90''),
                rt_p95 = toFixed_or0 (metric_value data ''http_req_duration'' ''p95''),
                rt_p99 = toFixed_or0 (metric_value data ''http_req_duration'' ''p99'')\<rparr>,
             received =
               Str (toFixed 2 (js_div (toNumber (metric_value data ''data_received'' ''count''))
                                 (Fin 1024))),
             sent =
               Str (toFixed 2 (js_div (toNumber (metric_value data ''data_sent'' ''count''))
                                 (Fin 1024))),
             errors_rate =
               Str (toFixed 2 (js_mul (js_div (Fin httpReqFailed) (Fin httpReqs)) (Fin 100))),
             errors_count = httpReqFailed\<rparr>,
          pd_thresholds =
            \<lparr>p95_under_1000ms =
               js_lt (toNumber (metric_value data ''http_req_duration'' ''p95'')) (Fin 1000),
             p99_under_2000ms =
               js_lt (toNumber (metric_value data ''http_req_duration'' ''p99'')) (Fin 2000),
             error_rate_under_10pct =
               js_lt (js_div (Fin httpReqFailed) (Fin httpReqs)) (Fin (1 / 10))\<rparr>\<rparr>)"

text \<open>
  The returned files. The HTML document and the \<open>stdout\<close> line are template strings over
  the local date and fields of \<open>performanceData\<close>; they are kept as the values they
  interpolate.
\<close>

datatype mqtt_artifact =
    Stdout rat string jsval string
  | HtmlDocument string performanceData
  | JsonPerformance performanceData
  | JsonRaw summary

definition mqtt_handleSummary :: "summary \<Rightarrow> clock \<Rightarrow> (string \<times> mqtt_artifact) list" where
  "mqtt_handleSummary data clk =
     (let pd = build_performanceData data clk
      in [(''stdout'',
             Stdout (ti_totalRequests (pd_testInfo pd)) (ti_successRate (pd_testInfo pd))
               (rt_avg (m_responseTime (pd_metrics pd))) (reportId clk)),
          (reportId clk @ ''-report.html'', HtmlDocument (localeString clk) pd),
          (reportId clk @ ''-data.json'', JsonPerformance pd),
          (reportId clk @ ''-raw.json'', JsonRaw data)])"

subsection \<open>The thresholds that the MQTT script declares\<close>

text \<open>
  \<open>options.thresholds\<close> of the MQTT script: metric, aggregation and limit of each
  \<open>'agg<limit'\<close> expression.
\<close>

definition mqtt_options_thresholds :: "(string \<times> string \<times> rat) list" where
  "mqtt_options_thresholds =
     [(''mqtt_publish_response_time'', ''p(95)'', 1000),
      (''mqtt_publish_response_time'', ''p(99)'', 2000),
      (''mqtt_publish_errors'', ''rate'', 1 / 10),
      (''http_req_failed'', ''rate'', 1 / 10)]"

text \<open>
  Modelled from the spec: the Threshold Evaluator, which is the k6 runtime and not part
  of the repository. A threshold \<open>agg<limit\<close> on a metric passes iff the aggregate of that
  metric in the snapshot is below the limit; "a spec referencing a metric absent from the
  snapshot fails closed".
\<close>

definition threshold_passes :: "summary \<Rightarrow> string \<times> string \<times> rat \<Rightarrow> bool" where
  "threshold_passes data t =
     (case t of (m, agg, limit) \<Rightarrow> js_lt (toNumber (metric_value data m agg)) (Fin limit))"


text \<open>A runtime whose prototype answers no endpoint name: only own keys are found.\<close>

definition own_only :: "string \<Rightarrow> bool" where
  "own_only k = False"

text \<open>Two example responses, for evaluating the scenarios.\<close>

definition ok_response :: response where
  "ok_response = \<lparr>status = 200, timings_duration = 12, body = Some ''Hello, World!'', elapsed = 13\<rparr>"

definition failed_response :: response where
  "failed_response = \<lparr>status = 500, timings_duration = 12, body = None, elapsed = 13\<rparr>"

text \<open>Two example iterations: a health check that fails and one that passes.\<close>

definition failing_iteration :: iteration where
  "failing_iteration =
     \<lparr>draw = 0, reply1 = failed_response, reply2 = ok_response, reply3 = ok_response\<rparr>"

definition passing_iteration :: iteration where
  "passing_iteration =
     \<lparr>draw = 0, reply1 = ok_response, reply2 = ok_response, reply3 = ok_response\<rparr>"

section \<open>Notions that the claims use\<close>

text \<open>
  The draws in \<open>[0, 1)\<close> that a dispatcher sends to a scenario, and the share of a
  scenario in a table of weights. The preimages below are half-open intervals, whose
  measure under the uniform distribution is their length.
\<close>

definition all_scenarios :: "scenario list" where
  "all_scenarios = [HealthCheck, UserOperations, MqttOperations, ChannelOperations]"

definition preimage :: "(real \<Rightarrow> scenario) \<Rightarrow> scenario \<Rightarrow> real set" where
  "preimage select s = {r. 0 \<le> r \<and> r < 1 \<and> select r = s}"

definition weight_share :: "(scenario \<Rightarrow> real) \<Rightarrow> scenario \<Rightarrow> real" where
  "weight_share w s = w s / sum_list (map w all_scenarios)"

text \<open>
  The coverage record of one attempted step: what one \<open>trackEndpoint\<close> call with the
  step's outcome and elapsed time writes into the entry of the step's endpoint.
\<close>

definition step_record :: "bool \<Rightarrow> int \<Rightarrow> stats \<Rightarrow> stats" where
  "step_record ok responseTime e =
     e\<lparr>hits := hits e + 1,
       success := success e + (if ok then 1 else 0),
       errors := errors e + (if ok then 0 else 1),
       totalResponseTime := totalResponseTime e + responseTime\<rparr>"

text \<open>A sequence of iterations of the default function, in order.\<close>

definition iterations :: "(string \<Rightarrow> bool) \<Rightarrow> iteration list \<Rightarrow> vu_state \<Rightarrow> vu_state" where
  "iterations inherited its st = foldl (\<lambda>s i. default_iteration inherited i s) st its"

definition perf_iterations :: "iteration list \<Rightarrow> perf_state \<Rightarrow> perf_state" where
  "perf_iterations its st = foldl (\<lambda>s i. perf_default_iteration i s) st its"

text \<open>
  An iteration in which a check fails at a call site that is followed by
  \<open>errorRate.add(1)\<close>. The last step of \<open>testUserOperations\<close> is not such a site. A
  second step is only reached when the first check passed.
\<close>

definition recorded_failure :: "iteration \<Rightarrow> bool" where
  "recorded_failure it =
     (case selectScenario (draw it) of
        HealthCheck \<Rightarrow> \<not> check (reply1 it) healthCheck_checks
      | UserOperations \<Rightarrow>
          \<not> check (reply1 it) getUsers_checks \<or> \<not> check (reply2 it) createUser_checks
      | MqttOperations \<Rightarrow>
          \<not> check (reply1 it) mqttPublish_checks \<or> \<not> check (reply2 it) mqttConsume_checks
      | ChannelOperations \<Rightarrow> \<not> check (reply1 it) channelPublish_checks)"

definition perf_recorded_failure :: "iteration \<Rightarrow> bool" where
  "perf_recorded_failure it =
     (case perf_selectScenario (draw it) of
        HealthCheck \<Rightarrow> \<not> check (reply1 it) healthCheck_checks
      | UserOperations \<Rightarrow>
          \<not> check (reply1 it) getUsers_checks \<or> \<not> check (reply2 it) createUser_checks
      | MqttOperations \<Rightarrow>
          \<not> check (reply1 it) mqttPublish_checks \<or> \<not> check (reply2 it) mqttConsume_checks
      | ChannelOperations \<Rightarrow> \<not> check (reply1 it) perf_channelPublish_checks)"

text \<open>
  What is left of an artifact when the readings of the clock are blanked: the coverage
  report without its \<open>timestamp\<close>, and the MQTT artifacts without \<open>timestamp\<close>,
  \<open>testDate\<close> and the report identifier. Everything else in an artifact is a metric value
  or a constant of the script.
\<close>

definition artifact_metrics :: "artifact \<Rightarrow> artifact" where
  "artifact_metrics a =
     (case a of
        JsonCoverage r \<Rightarrow>
          JsonCoverage (r\<lparr>rep_testInfo := (rep_testInfo r)\<lparr>cov_timestamp := []\<rparr>\<rparr>)
      | _ \<Rightarrow> a)"

definition performanceData_metrics :: "performanceData \<Rightarrow> performanceData" where
  "performanceData_metrics pd =
     pd\<lparr>pd_testInfo := (pd_testInfo pd)\<lparr>ti_timestamp := [], ti_testDate := []\<rparr>\<rparr>"

definition mqtt_artifact_metrics :: "mqtt_artifact \<Rightarrow> mqtt_artifact" where
  "mqtt_artifact_metrics a =
     (case a of
        Stdout n r avg ident \<Rightarrow> Stdout n r avg []
      | HtmlDocument d pd \<Rightarrow> HtmlDocument [] (performanceData_metrics pd)
      | JsonPerformance pd \<Rightarrow> JsonPerformance (performanceData_metrics pd)
      | JsonRaw d \<Rightarrow> JsonRaw d)"

text \<open>The metrics that \<open>handleSummary\<close> of the MQTT script reads.\<close>

definition mqtt_report_metrics :: "string list" where
  "mqtt_report_metrics =
     [''http_reqs'', ''http_req_failed'', ''iterations'', ''vus_max'', ''http_req_duration'',
      ''data_received'', ''data_sent'']"

text \<open>The state after one successful health check of 12 ms.\<close>

definition one_hit_state :: vu_state where
  "one_hit_state = trackEndpoint own_only ''GET /'' True 12 initial_state"

section \<open>Example summaries\<close>

definition empty_summary :: summary where
  "empty_summary = \<lparr>metrics = [], testRunDurationMs = 0\<rparr>"

definition sample_clock :: clock where
  "sample_clock =
     \<lparr>isoString1 = ''2026-01-02T03:04:05.678Z'', localeString = ''1/2/2026, 3:04:05 AM'',
      isoString2 = ''2026-01-02T03:04:05.679Z'', timeString = ''03:04:05 GMT+0000 (UTC)''\<rparr>"

text \<open>
  A run of ten requests that all failed, with the value names that k6 gives a Counter
  (\<open>count\<close>, \<open>rate\<close>) and a Rate (\<open>rate\<close>, \<open>passes\<close>, \<open>fails\<close>): \<open>http_req_failed\<close> has no
  \<open>count\<close>.
\<close>

definition all_failed_summary :: summary where
  "all_failed_summary =
     \<lparr>metrics =
        [(''http_reqs'', \<lparr>props = [], vals = Some [(''count'', 10), (''rate'', 5)]\<rparr>),
         (''http_req_failed'',
            \<lparr>props = [], vals = Some [(''rate'', 1), (''passes'', 10), (''fails'', 0)]\<rparr>)],
      testRunDurationMs = 2000\<rparr>"

text \<open>
  A run of ten successful requests as k6 summarises it: a Trend has the values
  \<open>avg\<close>, \<open>min\<close>, \<open>med\<close>, \<open>max\<close>, \<open>p(90)\<close> and \<open>p(95)\<close>. The 95th percentile of
  the custom trend \<open>mqtt_publish_response_time\<close> is 150.
\<close>

definition published_summary :: summary where
  "published_summary =
     \<lparr>metrics =
        [(''http_reqs'', \<lparr>props = [], vals = Some [(''count'', 10), (''rate'', 5)]\<rparr>),
         (''http_req_failed'',
            \<lparr>props = [], vals = Some [(''rate'', 0), (''passes'', 0), (''fails'', 10)]\<rparr>),
         (''http_req_duration'',
            \<lparr>props = [],
             vals = Some [(''avg'', 45), (''min'', 1), (''med'', 28), (''max'', 890),
                          (''p(90)'', 95), (''p(95)'', 198)]\<rparr>),
         (''mqtt_publish_response_time'',
            \<lparr>props = [],
             vals = Some [(''avg'', 50), (''min'', 2), (''med'', 30), (''max'', 900),
                          (''p(90)'', 100), (''p(95)'', 150)]\<rparr>)],
      testRunDurationMs = 2000\<rparr>"

text \<open>The same run with a slow custom trend: its 95th percentile is 1500.\<close>

definition slow_trend_summary :: summary where
  "slow_trend_summary =
     \<lparr>metrics =
        [(''http_reqs'', \<lparr>props = [], vals = Some [(''count'', 10), (''rate'', 5)]\<rparr>),
         (''http_req_failed'',
            \<lparr>props = [], vals = Some [(''rate'', 0), (''passes'', 0), (''fails'', 10)]\<rparr>),
         (''http_req_duration'',
            \<lparr>props = [],
             vals = Some [(''avg'', 45), (''min'', 1), (''med'', 28), (''max'', 890),
                          (''p(90)'', 95), (''p(95)'', 198)]\<rparr>),
         (''mqtt_publish_response_time'',
            \<lparr>props = [],
             vals = Some [(''avg'', 700), (''min'', 2), (''med'', 600), (''max'', 1900),
                          (''p(90)'', 1400), (''p(95)'', 1500)]\<rparr>)],
      testRunDurationMs = 2000\<rparr>"

text \<open>A run of ten requests with only the request counter and the duration trend.\<close>

definition no_trend_summary :: summary where
  "no_trend_summary =
     \<lparr>metrics =
        [(''http_reqs'', \<lparr>props = [], vals = Some [(''count'', 10), (''rate'', 5)]\<rparr>),
         (''http_req_duration'',
            \<lparr>props = [],
             vals = Some [(''avg'', 45), (''min'', 1), (''med'', 28), (''max'', 890),
                          (''p(90)'', 95), (''p(95)'', 198)]\<rparr>)],
      testRunDurationMs = 2000\<rparr>"

section \<open>Properties of the coverage accumulator\<close>

lemma trackEndpoint_own:
  "map_of (endpointCoverage st) k = Some e \<Longrightarrow>
   map_of (endpointCoverage (trackEndpoint inh k ok rt st)) =
     (map_of (endpointCoverage st))(k \<mapsto>
        e\<lparr>hits := hits e + 1, success := success e + (if ok then 1 else 0),
          errors := errors e + (if ok then 0 else 1),
          totalResponseTime := totalResponseTime e + rt\<rparr>)"
  by (cases e) (simp add: trackEndpoint_def Let_def update_conv')

lemma trackEndpoint_absent:
  "map_of (endpointCoverage st) k = None \<Longrightarrow>
   endpointCoverage (trackEndpoint inh k ok rt st) = endpointCoverage st"
  by (simp add: trackEndpoint_def Let_def)

lemma trackEndpoint_other:
  "k' \<noteq> k \<Longrightarrow>
   map_of (endpointCoverage (trackEndpoint inh k ok rt st)) k' = map_of (endpointCoverage st) k'"
  by (cases "map_of (endpointCoverage st) k")
     (simp_all add: trackEndpoint_absent trackEndpoint_own)

lemma trackEndpoint_keys:
  "map fst (endpointCoverage (trackEndpoint inh k ok rt st)) = map fst (endpointCoverage st)"
proof (cases "map_of (endpointCoverage st) k")
  case None
  then show ?thesis by (simp add: trackEndpoint_absent)
next
  case (Some e)
  then have "k \<in> fst ` set (endpointCoverage st)" by (metis map_of_eq_None_iff option.distinct(1))
  then show ?thesis using Some
    by (simp add: trackEndpoint_def Let_def update_keys)
qed

lemma trackEndpoint_endpointHits:
  "endpointHits (trackEndpoint inh k ok rt st) = endpointHits st + 1"
  by (simp add: trackEndpoint_def Let_def split: option.split)

lemma trackEndpoint_endpointResponseTime:
  "endpointResponseTime (trackEndpoint inh k ok rt st) = endpointResponseTime st @ [rt]"
  by (simp add: trackEndpoint_def Let_def split: option.split)

lemma trackEndpoint_requests:
  "requests (trackEndpoint inh k ok rt st) = requests st"
  by (simp add: trackEndpoint_def Let_def split: option.split)

lemma trackEndpoint_errorRate:
  "errorRate (trackEndpoint inh k ok rt st) = errorRate st"
  by (simp add: trackEndpoint_def Let_def split: option.split)

lemma trackEndpoint_stats_ok:
  assumes "\<forall>k e. map_of (endpointCoverage st) k = Some e \<longrightarrow> stats_ok e" and "0 \<le> rt"
  shows "\<forall>k' e. map_of (endpointCoverage (trackEndpoint inh k ok rt st)) k' = Some e \<longrightarrow> stats_ok e"
proof (cases "map_of (endpointCoverage st) k")
  case None
  then show ?thesis using assms by (simp add: trackEndpoint_absent)
next
  case (Some e)
  then have "stats_ok e" using assms by simp
  then show ?thesis using assms Some
    by (auto simp: trackEndpoint_own stats_ok_def)
qed

lemma trackAll_snoc:
  "trackAll inh (cs @ [(k, ok, rt)]) st = trackEndpoint inh k ok rt (trackAll inh cs st)"
  by (simp add: trackAll_def)

lemma initial_stats_ok:
  "map_of (endpointCoverage initial_state) k = Some e \<Longrightarrow> stats_ok e"
  by (auto simp: initial_state_def declared_endpoints_def zero_stats_def stats_ok_def
      split: if_splits)

lemma trackAll_stats_ok:
  "\<forall>c \<in> set calls. 0 \<le> snd (snd c) \<Longrightarrow>
   \<forall>k e. map_of (endpointCoverage (trackAll inh calls initial_state)) k = Some e \<longrightarrow> stats_ok e"
proof (induction calls rule: rev_induct)
  case Nil
  then show ?case by (auto simp: trackAll_def dest: initial_stats_ok)
next
  case (snoc c cs)
  obtain k ok rt where c: "c = (k, ok, rt)" by (cases c) auto
  from snoc have "\<forall>k e. map_of (endpointCoverage (trackAll inh cs initial_state)) k = Some e \<longrightarrow> stats_ok e"
    and "0 \<le> rt" by (auto simp: c)
  then show ?case unfolding c trackAll_snoc by (rule trackEndpoint_stats_ok)
qed

text \<open>
  Claim C1. After every prefix of every sequence of \<open>trackEndpoint\<close> calls with
  non-negative response times, started from the declared all-zero coverage object, each
  entry has \<open>hits = success + errors\<close> and no negative field; and a call on a key that
  the coverage object holds adds 1 to \<open>hits\<close>, 1 to exactly one of \<open>success\<close> and
  \<open>errors\<close>, and the response time to \<open>totalResponseTime\<close>.
\<close>

theorem trackEndpoint_hits_invariant:
  assumes "\<forall>c \<in> set calls. 0 \<le> snd (snd c)"
  shows "(\<forall>n k e. map_of (endpointCoverage (trackAll inherited (take n calls) initial_state)) k
             = Some e \<longrightarrow> stats_ok e) \<and>
         (\<forall>st k e ok rt. map_of (endpointCoverage st) k = Some e \<longrightarrow>
            map_of (endpointCoverage (trackEndpoint inherited k ok rt st)) k =
              Some (e\<lparr>hits := hits e + 1,
                      success := success e + (if ok then 1 else 0),
                      errors := errors e + (if ok then 0 else 1),
                      totalResponseTime := totalResponseTime e + rt\<rparr>))"
proof (intro conjI allI impI)
  fix n k e
  assume e: "map_of (endpointCoverage (trackAll inherited (take n calls) initial_state)) k = Some e"
  have "\<forall>c \<in> set (take n calls). 0 \<le> snd (snd c)"
    using assms by (meson in_set_takeD)
  from trackAll_stats_ok[OF this] e show "stats_ok e" by blast
next
  fix st :: vu_state and k and e :: stats and ok rt
  assume "map_of (endpointCoverage st) k = Some e"
  then show "map_of (endpointCoverage (trackEndpoint inherited k ok rt st)) k =
              Some (e\<lparr>hits := hits e + 1,
                      success := success e + (if ok then 1 else 0),
                      errors := errors e + (if ok then 0 else 1),
                      totalResponseTime := totalResponseTime e + rt\<rparr>)"
    by (simp add: trackEndpoint_own)
qed

theorem trackEndpoint_hits_invariant_witness:
  "map_of (endpointCoverage (trackAll own_only
       [(''GET /'', True, 12), (''GET /'', False, 40), (''GET /nope'', True, 3)] initial_state))
     ''GET /'' = Some \<lparr>hits = 2, success = 1, errors = 1, totalResponseTime = 52\<rparr> \<and>
   stats_ok \<lparr>hits = 2, success = 1, errors = 1, totalResponseTime = 52\<rparr>"
proof -
  let ?calls = "[(''GET /'', True, 12::int), (''GET /'', False, 40), (''GET /nope'', True, 3)]"
  have h: "\<forall>c \<in> set ?calls. 0 \<le> snd (snd c)" by simp
  have e: "map_of (endpointCoverage (trackAll own_only (take 3 ?calls) initial_state)) ''GET /''
             = Some \<lparr>hits = 2, success = 1, errors = 1, totalResponseTime = 52\<rparr>"
    by code_simp
  from trackEndpoint_hits_invariant[OF h, of own_only] e
  have "stats_ok \<lparr>hits = 2, success = 1, errors = 1, totalResponseTime = 52\<rparr>" by blast
  with e show ?thesis by simp
qed

lemma undeclared_absent:
  "map fst (endpointCoverage st) = declared_endpoints \<Longrightarrow> endpoint \<notin> set declared_endpoints \<Longrightarrow>
   map_of (endpointCoverage st) endpoint = None"
  by (metis map_of_eq_None_iff set_map)

lemma initial_keys: "map fst (endpointCoverage initial_state) = declared_endpoints"
  by (simp add: initial_state_def comp_def)

lemma initial_sum_hits:
  "sum_list (map (\<lambda>(k, e). hits e) (endpointCoverage initial_state)) = 0"
  by (simp add: initial_state_def declared_endpoints_def zero_stats_def)

text \<open>
  Claim C9. A call to \<open>trackEndpoint\<close> with a key that is not one of the seven declared
  keys leaves the coverage object as it was, while \<open>endpoint_hits\<close> still grows by 1 and
  \<open>endpoint_response_time\<close> still receives the sample; after one such call on the initial
  state the global hit count exceeds the sum of the per-endpoint hits.
\<close>

theorem trackEndpoint_undeclared_endpoint:
  assumes "map fst (endpointCoverage st) = declared_endpoints"
    and "endpoint \<notin> set declared_endpoints"
  shows "endpointCoverage (trackEndpoint inherited endpoint ok rt st) = endpointCoverage st \<and>
         endpointHits (trackEndpoint inherited endpoint ok rt st) = endpointHits st + 1 \<and>
         endpointResponseTime (trackEndpoint inherited endpoint ok rt st)
           = endpointResponseTime st @ [rt] \<and>
         sum_list (map (\<lambda>(k, e). hits e)
             (endpointCoverage (trackEndpoint inherited endpoint ok rt initial_state)))
           < endpointHits (trackEndpoint inherited endpoint ok rt initial_state)"
proof -
  have a: "map_of (endpointCoverage st) endpoint = None"
    using assms by (rule undeclared_absent)
  have b: "map_of (endpointCoverage initial_state) endpoint = None"
    using initial_keys assms(2) by (rule undeclared_absent)
  have "endpointHits initial_state = 0" by (simp add: initial_state_def)
  then show ?thesis
    using trackEndpoint_absent[OF a] trackEndpoint_absent[OF b]
    by (simp add: trackEndpoint_endpointHits trackEndpoint_endpointResponseTime initial_sum_hits)
qed

theorem trackEndpoint_undeclared_endpoint_witness:
  "endpointCoverage (trackEndpoint own_only ''GET /nope'' True 3 initial_state)
     = endpointCoverage initial_state \<and>
   endpointHits (trackEndpoint own_only ''GET /nope'' True 3 initial_state) = 1 \<and>
   endpointResponseTime (trackEndpoint own_only ''GET /nope'' True 3 initial_state) = [3]"
proof -
  have k: "map fst (endpointCoverage initial_state) = declared_endpoints" by (rule initial_keys)
  have n: "''GET /nope'' \<notin> set declared_endpoints" by (simp add: declared_endpoints_def)
  from trackEndpoint_undeclared_endpoint[OF k n, of own_only True 3]
  show ?thesis by (simp add: initial_state_def)
qed

section \<open>Properties of the scenarios\<close>

lemma request_simps:
  "requests (request r st) = requests st @ [r]"
  "endpointCoverage (request r st) = endpointCoverage st"
  "endpointHits (request r st) = endpointHits st"
  "endpointResponseTime (request r st) = endpointResponseTime st"
  "errorRate (request r st) = errorRate st"
  by (simp_all add: request_def)

lemma errorRate_add_simps:
  "requests (errorRate_add v st) = requests st"
  "endpointCoverage (errorRate_add v st) = endpointCoverage st"
  "endpointHits (errorRate_add v st) = endpointHits st"
  "endpointResponseTime (errorRate_add v st) = endpointResponseTime st"
  "errorRate (errorRate_add v st) = errorRate st @ [v]"
  by (simp_all add: errorRate_add_def)

lemmas track_simps = trackEndpoint_endpointHits trackEndpoint_endpointResponseTime
  trackEndpoint_requests trackEndpoint_errorRate trackEndpoint_other

lemma trackEndpoint_step_record:
  "map_of (endpointCoverage (trackEndpoint inh k ok rt st)) k
     = map_option (step_record ok rt) (map_of (endpointCoverage st) k)"
  by (cases "map_of (endpointCoverage st) k")
     (simp_all add: trackEndpoint_absent trackEndpoint_own step_record_def)

text \<open>
  Claim C4. In \<open>testUserOperations\<close>, when the first check fails only the first request
  is sent, and when the second fails only the first two are: the coverage entries of the
  later endpoints are what they were. Each request that is sent is followed by exactly
  one \<open>trackEndpoint\<close> call: the entry of that step's endpoint receives exactly one
  record, with the step's outcome and elapsed time, \<open>endpoint_response_time\<close> receives
  the elapsed time of exactly the requests sent, in order, and \<open>endpoint_hits\<close> grows by
  their number.
\<close>

theorem testUserOperations_short_circuit:
  "(\<not> check r1 getUsers_checks \<longrightarrow>
      requests (testUserOperations inherited r1 r2 r3 st) = requests st @ [''GET /user/users''] \<and>
      endpointResponseTime (testUserOperations inherited r1 r2 r3 st)
        = endpointResponseTime st @ [elapsed r1] \<and>
      map_of (endpointCoverage (testUserOperations inherited r1 r2 r3 st)) ''GET /user/users''
        = map_option (step_record False (elapsed r1))
            (map_of (endpointCoverage st) ''GET /user/users'') \<and>
      map_of (endpointCoverage (testUserOperations inherited r1 r2 r3 st)) ''POST /user/users''
        = map_of (endpointCoverage st) ''POST /user/users'' \<and>
      map_of (endpointCoverage (testUserOperations inherited r1 r2 r3 st)) ''GET /user/users/:id''
        = map_of (endpointCoverage st) ''GET /user/users/:id'') \<and>
   (check r1 getUsers_checks \<and> \<not> check r2 createUser_checks \<longrightarrow>
      requests (testUserOperations inherited r1 r2 r3 st)
        = requests st @ [''GET /user/users'', ''POST /user/users''] \<and>
      endpointResponseTime (testUserOperations inherited r1 r2 r3 st)
        = endpointResponseTime st @ [elapsed r1, elapsed r2] \<and>
      map_of (endpointCoverage (testUserOperations inherited r1 r2 r3 st)) ''GET /user/users''
        = map_option (step_record True (elapsed r1))
            (map_of (endpointCoverage st) ''GET /user/users'') \<and>
      map_of (endpointCoverage (testUserOperations inherited r1 r2 r3 st)) ''POST /user/users''
        = map_option (step_record False (elapsed r2))
            (map_of (endpointCoverage st) ''POST /user/users'') \<and>
      map_of (endpointCoverage (testUserOperations inherited r1 r2 r3 st)) ''GET /user/users/:id''
        = map_of (endpointCoverage st) ''GET /user/users/:id'') \<and>
   (check r1 getUsers_checks \<and> check r2 createUser_checks \<longrightarrow>
      requests (testUserOperations inherited r1 r2 r3 st)
        = requests st @ [''GET /user/users'', ''POST /user/users'', ''GET /user/users/1''] \<and>
      endpointResponseTime (testUserOperations inherited r1 r2 r3 st)
        = endpointResponseTime st @ [elapsed r1, elapsed r2, elapsed r3] \<and>
      map_of (endpointCoverage (testUserOperations inherited r1 r2 r3 st)) ''GET /user/users''
        = map_option (step_record True (elapsed r1))
            (map_of (endpointCoverage st) ''GET /user/users'') \<and>
      map_of (endpointCoverage (testUserOperations inherited r1 r2 r3 st)) ''POST /user/users''
        = map_option (step_record True (elapsed r2))
            (map_of (endpointCoverage st) ''POST /user/users'') \<and>
      map_of (endpointCoverage (testUserOperations inherited r1 r2 r3 st)) ''GET /user/users/:id''
        = map_option (step_record (check r3 getUser_checks) (elapsed r3))
            (map_of (endpointCoverage st) ''GET /user/users/:id'')) \<and>
   endpointHits (testUserOperations inherited r1 r2 r3 st) - endpointHits st
     = int (length (requests (testUserOperations inherited r1 r2 r3 st))) - int (length (requests st))"
  by (simp add: testUserOperations_def Let_def request_simps errorRate_add_simps track_simps
      trackEndpoint_step_record)

theorem testUserOperations_short_circuit_witness:
  "\<not> check failed_response getUsers_checks \<and>
   requests (testUserOperations own_only failed_response ok_response ok_response initial_state)
     = [''GET /user/users''] \<and>
   endpointResponseTime
     (testUserOperations own_only failed_response ok_response ok_response initial_state) = [13] \<and>
   map_of (endpointCoverage
       (testUserOperations own_only failed_response ok_response ok_response initial_state))
     ''GET /user/users'' = Some \<lparr>hits = 1, success = 0, errors = 1, totalResponseTime = 13\<rparr> \<and>
   map_of (endpointCoverage
       (testUserOperations own_only failed_response ok_response ok_response initial_state))
     ''POST /user/users'' = Some zero_stats \<and>
   check ok_response getUsers_checks \<and> check ok_response createUser_checks \<and>
   requests (testUserOperations own_only ok_response ok_response ok_response initial_state)
     = [''GET /user/users'', ''POST /user/users'', ''GET /user/users/1''] \<and>
   map_of (endpointCoverage
       (testUserOperations own_only ok_response ok_response ok_response initial_state))
     ''GET /user/users/:id'' = Some \<lparr>hits = 1, success = 1, errors = 0, totalResponseTime = 13\<rparr>"
proof -
  have f: "\<not> check failed_response getUsers_checks"
    by (simp add: check_def getUsers_checks_def failed_response_def)
  have g: "check ok_response getUsers_checks" "check ok_response createUser_checks"
    "check ok_response getUser_checks"
    by (simp_all add: check_def getUsers_checks_def createUser_checks_def getUser_checks_def
        ok_response_def)
  have z: "map_of (endpointCoverage initial_state) ''GET /user/users'' = Some zero_stats"
    "map_of (endpointCoverage initial_state) ''POST /user/users'' = Some zero_stats"
    "map_of (endpointCoverage initial_state) ''GET /user/users/:id'' = Some zero_stats"
    by (simp_all add: initial_state_def declared_endpoints_def)
  have i: "requests initial_state = []" "endpointResponseTime initial_state = []"
    by (simp_all add: initial_state_def)
  have e: "elapsed failed_response = 13" "elapsed ok_response = 13"
    by (simp_all add: failed_response_def ok_response_def)
  from testUserOperations_short_circuit
         [of failed_response own_only ok_response ok_response initial_state] f z i e
  have a: "requests
       (testUserOperations own_only failed_response ok_response ok_response initial_state)
     = [''GET /user/users'']"
    "endpointResponseTime
     (testUserOperations own_only failed_response ok_response ok_response initial_state) = [13]"
    "map_of (endpointCoverage
       (testUserOperations own_only failed_response ok_response ok_response initial_state))
     ''GET /user/users'' = Some \<lparr>hits = 1, success = 0, errors = 1, totalResponseTime = 13\<rparr>"
    "map_of (endpointCoverage
       (testUserOperations own_only failed_response ok_response ok_response initial_state))
     ''POST /user/users'' = Some zero_stats"
    by (simp_all add: step_record_def zero_stats_def)
  from testUserOperations_short_circuit
         [of ok_response own_only ok_response ok_response initial_state] g z i e
  have b: "requests
       (testUserOperations own_only ok_response ok_response ok_response initial_state)
     = [''GET /user/users'', ''POST /user/users'', ''GET /user/users/1'']"
    "map_of (endpointCoverage
       (testUserOperations own_only ok_response ok_response ok_response initial_state))
     ''GET /user/users/:id'' = Some \<lparr>hits = 1, success = 1, errors = 0, totalResponseTime = 13\<rparr>"
    by (simp_all add: step_record_def zero_stats_def)
  from f g a b show ?thesis by simp
qed

section \<open>Properties of setup and of the dispatchers\<close>

text \<open>
  Claim C8. When the reachability check of \<open>setup\<close> sees a status other than 200,
  \<open>setup\<close> throws \<open>Server is not responding correctly\<close> and the run ends with that
  error after zero iterations; the state is the starting state with only the \<open>GET /\<close>
  of \<open>setup\<close> added to the request log, so no custom metric has a sample and no
  coverage entry has changed. This holds for the three scripts.
\<close>

theorem setup_unreachable_aborts:
  assumes "status response \<noteq> 200"
  shows "run (cov_setup response now) (default_iteration inherited) its st
           = (Inl (Error ''Server is not responding correctly''), 0,
              st\<lparr>requests := requests st @ [''GET /'']\<rparr>) \<and>
         run (perf_setup response) perf_default_iteration its pst
           = (Inl (Error ''Server is not responding correctly''), 0,
              pst\<lparr>perf_requests := perf_requests pst @ [''GET /'']\<rparr>) \<and>
         run (mqtt_setup response now) mqtt_default_iteration rs mst
           = (Inl (Error ''Server is not responding correctly''), 0,
              mst\<lparr>mqtt_requests := mqtt_requests mst @ [''GET /'']\<rparr>)"
  using assms
  by (simp add: run_def cov_setup_def perf_setup_def mqtt_setup_def Let_def request_def
      perf_request_def)

theorem setup_unreachable_aborts_witness:
  "status failed_response \<noteq> 200 \<and>
   run (cov_setup failed_response 0) (default_iteration own_only)
       [\<lparr>draw = 0, reply1 = ok_response, reply2 = ok_response, reply3 = ok_response\<rparr>]
       initial_state
     = (Inl (Error ''Server is not responding correctly''), 0,
        initial_state\<lparr>requests := [''GET /'']\<rparr>)"
proof -
  have h: "status failed_response \<noteq> 200" by (simp add: failed_response_def)
  from setup_unreachable_aborts[OF h, of 0 own_only
      "[\<lparr>draw = 0, reply1 = ok_response, reply2 = ok_response, reply3 = ok_response\<rparr>]"
      initial_state] h
  show ?thesis by (simp add: initial_state_def)
qed

lemma preimage_interval:
  assumes "\<And>r. 0 \<le> r \<Longrightarrow> r < 1 \<Longrightarrow> (select r = s) = (a \<le> r \<and> r < b)" "0 \<le> a" "b \<le> 1"
  shows "preimage select s = {a..<b}"
proof (rule set_eqI)
  fix r
  show "r \<in> preimage select s \<longleftrightarrow> r \<in> {a..<b}"
    using assms(1)[of r] assms(2,3) by (auto simp: preimage_def)
qed

text \<open>
  Claim C3 as stated fails for the basic script: the draw \<open>5404319552844595 / 2^53\<close>
  (the double \<open>0.6\<close>) lies in the declared 30 to 60 percent band and is sent to the MQTT
  scenario, and the draws sent to the health check form an interval shorter than the
  declared share of 30 percent.
\<close>

theorem perf_selectScenario_shares_inexact:
  "(3 / 10 :: real) \<le> 5404319552844595 / 9007199254740992 \<and>
   (5404319552844595 / 9007199254740992 :: real) < 6 / 10 \<and>
   perf_selectScenario (5404319552844595 / 9007199254740992) = MqttOperations \<and>
   preimage perf_selectScenario HealthCheck = {0..<5404319552844595 / 18014398509481984} \<and>
   (5404319552844595 / 18014398509481984 :: real) - 0
     < weight_share perf_declared_weight HealthCheck"
proof -
  have "preimage perf_selectScenario HealthCheck = {0..<double_0_3}"
    by (rule preimage_interval) (auto simp: perf_selectScenario_def double_0_3_def)
  then show ?thesis
    by (simp add: perf_selectScenario_def double_0_3_def double_0_6_def double_0_8_def
        weight_share_def all_scenarios_def)
qed

text \<open>
  Claim C3, as amended. For each scenario, the draws in \<open>[0, 1)\<close> that the dispatcher
  sends to it form a half-open interval. In the coverage script its length is exactly
  the scenario's declared weight divided by the sum of the declared weights, a quarter.
  In the basic script the intervals are cut at the doubles that \<open>0.3\<close>, \<open>0.6\<close> and \<open>0.8\<close>
  denote, and their lengths differ from the declared shares of 30/30/20/20 percent by
  less than \<open>2^-53\<close>.
\<close>

theorem selectScenario_weight_shares:
  "(\<forall>s. \<exists>a b. a \<le> b \<and> preimage selectScenario s = {a..<b} \<and>
           b - a = weight_share declared_weight s) \<and>
   (\<forall>s. \<exists>a b. a \<le> b \<and> preimage perf_selectScenario s = {a..<b} \<and>
           \<bar>(b - a) - weight_share perf_declared_weight s\<bar> < 1 / 2 ^ 53) \<and>
   preimage perf_selectScenario HealthCheck = {0..<double_0_3} \<and>
   preimage perf_selectScenario UserOperations = {double_0_3..<double_0_6} \<and>
   preimage perf_selectScenario MqttOperations = {double_0_6..<double_0_8} \<and>
   preimage perf_selectScenario ChannelOperations = {double_0_8..<1}"
proof -
  have h: "preimage perf_selectScenario HealthCheck = {0..<double_0_3}"
    by (rule preimage_interval)
       (auto simp: perf_selectScenario_def double_0_3_def double_0_6_def double_0_8_def)
  have u: "preimage perf_selectScenario UserOperations = {double_0_3..<double_0_6}"
    by (rule preimage_interval)
       (auto simp: perf_selectScenario_def double_0_3_def double_0_6_def double_0_8_def)
  have m: "preimage perf_selectScenario MqttOperations = {double_0_6..<double_0_8}"
    by (rule preimage_interval)
       (auto simp: perf_selectScenario_def double_0_3_def double_0_6_def double_0_8_def)
  have c: "preimage perf_selectScenario ChannelOperations = {double_0_8..<1}"
    by (rule preimage_interval)
       (auto simp: perf_selectScenario_def double_0_3_def double_0_6_def double_0_8_def)
  have cov: "\<exists>a b. a \<le> b \<and> preimage selectScenario s = {a..<b} \<and>
           b - a = weight_share declared_weight s" for s
  proof (cases s)
    case HealthCheck
    have "preimage selectScenario s = {0..<1/4}"
      unfolding HealthCheck by (rule preimage_interval) (auto simp: selectScenario_def)
    then show ?thesis
      by (intro exI[of _ 0] exI[of _ "1/4"])
         (simp add: weight_share_def declared_weight_def all_scenarios_def)
  next
    case UserOperations
    have "preimage selectScenario s = {1/4..<1/2}"
      unfolding UserOperations by (rule preimage_interval) (auto simp: selectScenario_def)
    then show ?thesis
      by (intro exI[of _ "1/4"] exI[of _ "1/2"])
         (simp add: weight_share_def declared_weight_def all_scenarios_def)
  next
    case MqttOperations
    have "preimage selectScenario s = {1/2..<3/4}"
      unfolding MqttOperations by (rule preimage_interval) (auto simp: selectScenario_def)
    then show ?thesis
      by (intro exI[of _ "1/2"] exI[of _ "3/4"])
         (simp add: weight_share_def declared_weight_def all_scenarios_def)
  next
    case ChannelOperations
    have "preimage selectScenario s = {3/4..<1}"
      unfolding ChannelOperations by (rule preimage_interval) (auto simp: selectScenario_def)
    then show ?thesis
      by (intro exI[of _ "3/4"] exI[of _ 1])
         (simp add: weight_share_def declared_weight_def all_scenarios_def)
  qed
  have perf: "\<exists>a b. a \<le> b \<and> preimage perf_selectScenario s = {a..<b} \<and>
           \<bar>(b - a) - weight_share perf_declared_weight s\<bar> < 1 / 2 ^ 53" for s
  proof (cases s)
    case HealthCheck
    show ?thesis unfolding HealthCheck h
      by (intro exI[of _ 0] exI[of _ double_0_3])
         (simp add: weight_share_def all_scenarios_def double_0_3_def)
  next
    case UserOperations
    show ?thesis unfolding UserOperations u
      by (intro exI[of _ double_0_3] exI[of _ double_0_6])
         (simp add: weight_share_def all_scenarios_def double_0_3_def double_0_6_def)
  next
    case MqttOperations
    show ?thesis unfolding MqttOperations m
      by (intro exI[of _ double_0_6] exI[of _ double_0_8])
         (simp add: weight_share_def all_scenarios_def double_0_6_def double_0_8_def)
  next
    case ChannelOperations
    show ?thesis unfolding ChannelOperations c
      by (intro exI[of _ double_0_8] exI[of _ 1])
         (simp add: weight_share_def all_scenarios_def double_0_8_def)
  qed
  from cov perf h u m c show ?thesis by blast
qed

section \<open>Properties of the errors metric\<close>

lemma default_iteration_errorRate:
  "errorRate (default_iteration inh it st)
     = errorRate st @ (if recorded_failure it then [1] else [])"
  by (cases "selectScenario (draw it)")
     (simp_all add: default_iteration_def recorded_failure_def testHealthCheck_def
        testUserOperations_def testMqttOperations_def testChannelOperations_def Let_def
        request_simps errorRate_add_simps trackEndpoint_errorRate)

lemma perf_default_iteration_errorRate:
  "perf_errorRate (perf_default_iteration it st)
     = perf_errorRate st @ (if perf_recorded_failure it then [1] else [])"
  by (cases "perf_selectScenario (draw it)")
     (simp_all add: perf_default_iteration_def perf_recorded_failure_def perf_testHealthCheck_def
        perf_testUserOperations_def perf_testMqttOperations_def perf_testChannelOperations_def
        Let_def perf_request_def perf_errorRate_add_def)

lemma iterations_errorRate:
  "errorRate (iterations inh its st)
     = errorRate st @ replicate (length (filter recorded_failure its)) 1"
proof (induction its arbitrary: st)
  case Nil
  show ?case by (simp add: iterations_def)
next
  case (Cons it its)
  have "iterations inh (it # its) st = iterations inh its (default_iteration inh it st)"
    by (simp add: iterations_def)
  then show ?case
    by (simp add: Cons.IH default_iteration_errorRate replicate_app_Cons_same)
qed

lemma perf_iterations_errorRate:
  "perf_errorRate (perf_iterations its st)
     = perf_errorRate st @ replicate (length (filter perf_recorded_failure its)) 1"
proof (induction its arbitrary: st)
  case Nil
  show ?case by (simp add: perf_iterations_def)
next
  case (Cons it its)
  have "perf_iterations (it # its) st = perf_iterations its (perf_default_iteration it st)"
    by (simp add: perf_iterations_def)
  then show ?case
    by (simp add: Cons.IH perf_default_iteration_errorRate replicate_app_Cons_same)
qed

lemma rate_ones: "rate (replicate n 1) = (if n = 0 then 0 else 1)"
  by (simp add: rate_def)

lemma errors_threshold_ones: "errors_threshold (replicate n 1) \<longleftrightarrow> n = 0"
  by (simp add: errors_threshold_def rate_ones)

text \<open>
  Claim C10. In both scripts with scenarios, after any sequence of iterations the
  samples of the \<open>errors\<close> Rate are all 1, one for each iteration in which a check
  failed at a call site that records an error. So when there is at least one sample the
  rate is 1, and the threshold \<open>rate<0.05\<close> passes only when no iteration had such a
  failure.
\<close>

theorem errors_rate_samples_all_one:
  "errorRate (iterations inherited its initial_state)
     = replicate (length (filter recorded_failure its)) 1 \<and>
   (errorRate (iterations inherited its initial_state) \<noteq> [] \<longrightarrow>
      rate (errorRate (iterations inherited its initial_state)) = 1) \<and>
   (errors_threshold (errorRate (iterations inherited its initial_state)) \<longrightarrow>
      (\<forall>it \<in> set its. \<not> recorded_failure it)) \<and>
   perf_errorRate (perf_iterations its perf_initial)
     = replicate (length (filter perf_recorded_failure its)) 1 \<and>
   (perf_errorRate (perf_iterations its perf_initial) \<noteq> [] \<longrightarrow>
      rate (perf_errorRate (perf_iterations its perf_initial)) = 1) \<and>
   (errors_threshold (perf_errorRate (perf_iterations its perf_initial)) \<longrightarrow>
      (\<forall>it \<in> set its. \<not> perf_recorded_failure it))"
proof -
  have a: "errorRate (iterations inherited its initial_state)
     = replicate (length (filter recorded_failure its)) 1"
    by (simp add: iterations_errorRate initial_state_def)
  have b: "perf_errorRate (perf_iterations its perf_initial)
     = replicate (length (filter perf_recorded_failure its)) 1"
    by (simp add: perf_iterations_errorRate perf_initial_def)
  show ?thesis
    unfolding a b by (simp add: rate_ones errors_threshold_ones filter_empty_conv)
qed

lemma failing_recorded: "recorded_failure failing_iteration"
  by (simp add: recorded_failure_def failing_iteration_def selectScenario_def check_def
      healthCheck_checks_def failed_response_def)

lemma hello: "sublist ''Hello'' ''Hello, World!''"
  unfolding sublist_def by (rule exI[of _ "[]"], rule exI[of _ "'', World!''"]) simp

lemma passing_not_recorded: "\<not> recorded_failure passing_iteration"
  by (simp add: recorded_failure_def passing_iteration_def selectScenario_def check_def
      healthCheck_checks_def ok_response_def body_includes_def hello)

theorem errors_rate_samples_all_one_witness:
  "errorRate (iterations own_only [failing_iteration] initial_state) = [1] \<and>
   rate (errorRate (iterations own_only [failing_iteration] initial_state)) = 1 \<and>
   errors_threshold (errorRate (iterations own_only [passing_iteration] initial_state)) \<and>
   \<not> recorded_failure passing_iteration"
proof -
  have p: "errorRate (iterations own_only [passing_iteration] initial_state) = []"
    using errors_rate_samples_all_one[of own_only "[passing_iteration]"] passing_not_recorded
    by simp
  have t: "errors_threshold (errorRate (iterations own_only [passing_iteration] initial_state))"
    unfolding p by (simp add: errors_threshold_def rate_def)
  from errors_rate_samples_all_one[of own_only "[failing_iteration]"] failing_recorded
  have f: "errorRate (iterations own_only [failing_iteration] initial_state) = [1]"
    "rate (errorRate (iterations own_only [failing_iteration] initial_state)) = 1"
    by (simp_all add: rate_def)
  from errors_rate_samples_all_one[of own_only "[passing_iteration]"] t
  have "\<not> recorded_failure passing_iteration" by simp
  with f t show ?thesis by simp
qed

section \<open>Properties of the summary handlers\<close>

lemma floor_rat_numeral: "\<lfloor>numeral a / numeral b :: rat\<rfloor> = numeral a div numeral b"
  using floor_divide_of_int_eq[of "numeral a" "numeral b", where ?'a = rat] by simp

lemma floor_rat_one: "\<lfloor>1 / numeral b :: rat\<rfloor> = 1 div numeral b"
  using floor_divide_of_int_eq[of 1 "numeral b", where ?'a = rat] by simp

lemma keys_card:
  assumes "distinct (map fst xs)"
  shows "card {k. \<exists>e. map_of xs k = Some e \<and> P e} = length (filter P (map snd xs))"
proof -
  have "{k. \<exists>e. map_of xs k = Some e \<and> P e} = fst ` set (filter (\<lambda>p. P (snd p)) xs)"
    using assms by (force simp: image_iff dest: map_of_SomeD intro: map_of_is_SomeI)
  moreover have "distinct (map fst (filter (\<lambda>p. P (snd p)) xs))"
    using assms by (simp add: distinct_map_filter)
  then have "card (fst ` set (filter (\<lambda>p. P (snd p)) xs)) = length (filter (\<lambda>p. P (snd p)) xs)"
    by (metis distinct_card length_map set_map)
  moreover have "length (filter P (map snd xs)) = length (filter (\<lambda>p. P (snd p)) xs)"
    by (simp add: filter_map comp_def)
  ultimately show ?thesis by simp
qed

lemma dom_card:
  assumes "distinct (map fst xs)"
  shows "card (dom (map_of xs)) = length xs"
  using assms by (metis distinct_card dom_map_of_conv_image_fst length_map set_map)

lemma report_rows:
  "map_of (map (\<lambda>(endpoint, e). (endpoint, endpoint_report_of e)) xs) k
     = map_option endpoint_report_of (map_of xs k)"
  by (induction xs) auto

text \<open>
  Claim C2. The coverage report that \<open>handleSummary\<close> writes gives
  \<open>coveragePercentage\<close> as the number of declared endpoints with \<open>hits > 0\<close>, divided
  by the number of declared endpoints, times 100 (rendered by \<open>toFixed(2)\<close>); it has a
  row for every declared endpoint, and the row of an endpoint with zero hits has
  \<open>tested = false\<close> and the explicit values \<open>'0'\<close> for \<open>successRate\<close> and
  \<open>avgResponseTime\<close>.
\<close>

theorem handleSummary_coverage_report:
  assumes "distinct (map fst (endpointCoverage st))" and "endpointCoverage st \<noteq> []"
  shows "\<exists>rep. map_of (handleSummary data isoNow st) ''reports/endpoint-coverage.json''
                 = Some (JsonCoverage rep) \<and>
           coveragePercentage (rep_summary rep)
             = toFixed_rat 2
                 (of_nat (card {k. \<exists>e. map_of (endpointCoverage st) k = Some e \<and> 0 < hits e})
                    / of_nat (card (dom (map_of (endpointCoverage st)))) * 100) \<and>
           map fst (rep_endpointCoverage rep) = map fst (endpointCoverage st) \<and>
           (\<forall>k e. map_of (endpointCoverage st) k = Some e \<and> hits e = 0 \<longrightarrow>
              map_of (rep_endpointCoverage rep) k
                = Some \<lparr>rep_hits = 0, successRate = ''0'', avgResponseTime = ''0'',
                        rep_errors = errors e, tested = False\<rparr>)"
proof -
  let ?rep = "build_coverageReport data isoNow st"
  have a: "map_of (handleSummary data isoNow st) ''reports/endpoint-coverage.json''
             = Some (JsonCoverage ?rep)"
    by (simp add: handleSummary_def)
  have n: "length (endpointCoverage st) \<noteq> 0" using assms(2) by simp
  have b: "coveragePercentage (rep_summary ?rep)
             = toFixed_rat 2
                 (of_nat (card {k. \<exists>e. map_of (endpointCoverage st) k = Some e \<and> 0 < hits e})
                    / of_nat (card (dom (map_of (endpointCoverage st)))) * 100)"
    using n by (simp add: build_coverageReport_def Let_def toFixed_def
        keys_card[OF assms(1)] dom_card[OF assms(1)])
  have c: "map fst (rep_endpointCoverage ?rep) = map fst (endpointCoverage st)"
    by (simp add: build_coverageReport_def Let_def comp_def case_prod_unfold)
  have d: "\<forall>k e. map_of (endpointCoverage st) k = Some e \<and> hits e = 0 \<longrightarrow>
              map_of (rep_endpointCoverage ?rep) k
                = Some \<lparr>rep_hits = 0, successRate = ''0'', avgResponseTime = ''0'',
                        rep_errors = errors e, tested = False\<rparr>"
  proof (intro allI impI)
    fix k e
    assume e: "map_of (endpointCoverage st) k = Some e \<and> hits e = 0"
    have "map_of (rep_endpointCoverage ?rep) k
            = map_option endpoint_report_of (map_of (endpointCoverage st) k)"
      unfolding build_coverageReport_def Let_def by (simp only: coverageReport.simps report_rows)
    with e show "map_of (rep_endpointCoverage ?rep) k
                = Some \<lparr>rep_hits = 0, successRate = ''0'', avgResponseTime = ''0'',
                        rep_errors = errors e, tested = False\<rparr>"
      by (simp add: endpoint_report_of_def)
  qed
  from a b c d show ?thesis by blast
qed

lemma toFixed_rat_digits:
  assumes "nat \<lfloor>\<bar>x\<bar> * 10 ^ f + 1 / 2\<rfloor> = n" and "digits_of n = m"
  shows "toFixed_rat f x =
           (if x < 0 then ''-'' else [])
           @ (if f = 0 then replicate (f + 1 - length m) (CHR ''0'') @ m
              else take (length (replicate (f + 1 - length m) (CHR ''0'') @ m) - f)
                     (replicate (f + 1 - length m) (CHR ''0'') @ m)
                   @ ''.''
                   @ drop (length (replicate (f + 1 - length m) (CHR ''0'') @ m) - f)
                       (replicate (f + 1 - length m) (CHR ''0'') @ m))"
  unfolding toFixed_rat_def Let_def assms by (rule refl)

lemma toFixed_100_7: "toFixed_rat 2 (100 / 7) = ''14.29''"
proof -
  have n: "nat \<lfloor>\<bar>100 / 7 :: rat\<bar> * 10 ^ 2 + 1 / 2\<rfloor> = 1429"
    by (simp add: floor_rat_numeral)
  have m: "digits_of 1429 = ''1429''"
    by (simp add: digits_of.simps digit_def)
  show ?thesis by (simp add: toFixed_rat_digits[OF n m])
qed

lemma one_hit_coverage:
  "endpointCoverage one_hit_state =
     (''GET /'', \<lparr>hits = 1, success = 1, errors = 0, totalResponseTime = 12\<rparr>)
       # map (\<lambda>k. (k, zero_stats)) (tl declared_endpoints)"
  by (simp add: one_hit_state_def trackEndpoint_def initial_state_def declared_endpoints_def
      zero_stats_def Let_def)

theorem handleSummary_coverage_report_witness:
  "distinct (map fst (endpointCoverage one_hit_state)) \<and> endpointCoverage one_hit_state \<noteq> [] \<and>
   coveragePercentage (rep_summary (build_coverageReport empty_summary [] one_hit_state))
     = ''14.29'' \<and>
   map_of (rep_endpointCoverage (build_coverageReport empty_summary [] one_hit_state))
       ''POST /mqtt/pub''
     = Some \<lparr>rep_hits = 0, successRate = ''0'', avgResponseTime = ''0'', rep_errors = 0,
             tested = False\<rparr>"
proof -
  have d: "distinct (map fst (endpointCoverage one_hit_state))"
    by (simp add: one_hit_coverage declared_endpoints_def)
  have n: "endpointCoverage one_hit_state \<noteq> []" by (simp add: one_hit_coverage)
  have z: "map_of (endpointCoverage one_hit_state) ''POST /mqtt/pub'' = Some zero_stats"
    by (simp add: one_hit_coverage declared_endpoints_def)
  have t: "length (filter (\<lambda>e. 0 < hits e) (map snd (endpointCoverage one_hit_state))) = 1"
    by (simp add: one_hit_coverage declared_endpoints_def zero_stats_def)
  have l: "length (map fst (endpointCoverage one_hit_state)) = 7"
    by (simp add: one_hit_coverage declared_endpoints_def)
  have p: "coveragePercentage (rep_summary (build_coverageReport empty_summary [] one_hit_state))
     = ''14.29''"
    unfolding build_coverageReport_def Let_def t l
    by (simp add: toFixed_def toFixed_100_7)
  from handleSummary_coverage_report[OF d n, of empty_summary "[]"]
  have "\<forall>k e. map_of (endpointCoverage one_hit_state) k = Some e \<and> hits e = 0 \<longrightarrow>
          map_of (rep_endpointCoverage (build_coverageReport empty_summary [] one_hit_state)) k
            = Some \<lparr>rep_hits = 0, successRate = ''0'', avgResponseTime = ''0'',
                    rep_errors = errors e, tested = False\<rparr>"
    by (simp add: handleSummary_def)
  from this[rule_format, of "''POST /mqtt/pub''" zero_stats] z
  have "map_of (rep_endpointCoverage (build_coverageReport empty_summary [] one_hit_state))
       ''POST /mqtt/pub''
     = Some \<lparr>rep_hits = 0, successRate = ''0'', avgResponseTime = ''0'', rep_errors = 0,
             tested = False\<rparr>"
    by (simp add: handleSummary_def zero_stats_def)
  with d n p show ?thesis by simp
qed

lemma js_lt_toNumber:
  "js_lt (toNumber v) (Fin c) \<longleftrightarrow> (\<exists>x. v = Some x \<and> x < c)"
  by (cases v) (simp_all add: toNumber_def)

lemma thresholds_of_performanceData:
  "pd_thresholds (build_performanceData data clk) =
     \<lparr>p95_under_1000ms =
        js_lt (toNumber (metric_value data ''http_req_duration'' ''p95'')) (Fin 1000),
      p99_under_2000ms =
        js_lt (toNumber (metric_value data ''http_req_duration'' ''p99'')) (Fin 2000),
      error_rate_under_10pct =
        js_lt (js_div (Fin (or0 (metric_value data ''http_req_failed'' ''count'')))
                 (Fin (or0 (metric_value data ''http_reqs'' ''count''))))
          (Fin (1 / 10))\<rparr>"
  by (simp add: build_performanceData_def Let_def)

text \<open>
  Claim C6, as amended. In the thresholds block of the MQTT report, \<open>p95_under_1000ms\<close>
  and \<open>p99_under_2000ms\<close> are false when the \<open>http_req_duration\<close> percentile they read
  is absent, and \<open>error_rate_under_10pct\<close> is false when the request count is absent or
  zero (the failure count being non-negative). An absent failure count is replaced by 0:
  with a positive request count \<open>error_rate_under_10pct\<close> is then true.
\<close>

theorem report_thresholds_absent_metrics:
  "(metric_value data ''http_req_duration'' ''p95'' = None \<longrightarrow>
      \<not> p95_under_1000ms (pd_thresholds (build_performanceData data clk))) \<and>
   (metric_value data ''http_req_duration'' ''p99'' = None \<longrightarrow>
      \<not> p99_under_2000ms (pd_thresholds (build_performanceData data clk))) \<and>
   (or0 (metric_value data ''http_reqs'' ''count'') = 0 \<and>
    0 \<le> or0 (metric_value data ''http_req_failed'' ''count'') \<longrightarrow>
      \<not> error_rate_under_10pct (pd_thresholds (build_performanceData data clk))) \<and>
   (metric_value data ''http_req_failed'' ''count'' = None \<and>
    0 < or0 (metric_value data ''http_reqs'' ''count'') \<longrightarrow>
      error_rate_under_10pct (pd_thresholds (build_performanceData data clk)))"
  by (auto simp: thresholds_of_performanceData toNumber_def or0_def)

text \<open>
  Claim C6 as stated fails: in a summary of ten requests where \<open>http_req_failed\<close> has no
  \<open>count\<close> and \<open>http_req_duration\<close> is absent, \<open>error_rate_under_10pct\<close> is true.
\<close>

theorem report_thresholds_fail_open:
  "metric_value all_failed_summary ''http_req_failed'' ''count'' = None \<and>
   metric_value all_failed_summary ''http_req_duration'' ''p95'' = None \<and>
   error_rate_under_10pct (pd_thresholds (build_performanceData all_failed_summary sample_clock))"
  by (simp add: thresholds_of_performanceData all_failed_summary_def metric_value_def or0_def)

theorem report_thresholds_absent_metrics_witness:
  "metric_value empty_summary ''http_req_duration'' ''p95'' = None \<and>
   metric_value empty_summary ''http_req_duration'' ''p99'' = None \<and>
   or0 (metric_value empty_summary ''http_reqs'' ''count'') = 0 \<and>
   0 \<le> or0 (metric_value empty_summary ''http_req_failed'' ''count'') \<and>
   pd_thresholds (build_performanceData empty_summary sample_clock)
     = \<lparr>p95_under_1000ms = False, p99_under_2000ms = False, error_rate_under_10pct = False\<rparr> \<and>
   metric_value no_trend_summary ''http_req_failed'' ''count'' = None \<and>
   0 < or0 (metric_value no_trend_summary ''http_reqs'' ''count'') \<and>
   error_rate_under_10pct (pd_thresholds (build_performanceData no_trend_summary sample_clock))"
proof -
  have e: "metric_value empty_summary ''http_req_duration'' ''p95'' = None"
    "metric_value empty_summary ''http_req_duration'' ''p99'' = None"
    "or0 (metric_value empty_summary ''http_reqs'' ''count'') = 0"
    "0 \<le> or0 (metric_value empty_summary ''http_req_failed'' ''count'')"
    by (simp_all add: empty_summary_def metric_value_def or0_def)
  have f: "metric_value no_trend_summary ''http_req_failed'' ''count'' = None"
    "0 < or0 (metric_value no_trend_summary ''http_reqs'' ''count'')"
    by (simp_all add: no_trend_summary_def metric_value_def or0_def)
  from report_thresholds_absent_metrics[of empty_summary sample_clock] e
  have a: "pd_thresholds (build_performanceData empty_summary sample_clock)
     = \<lparr>p95_under_1000ms = False, p99_under_2000ms = False, error_rate_under_10pct = False\<rparr>"
    by (cases "pd_thresholds (build_performanceData empty_summary sample_clock)") simp
  from report_thresholds_absent_metrics[of no_trend_summary sample_clock] f
  have "error_rate_under_10pct
          (pd_thresholds (build_performanceData no_trend_summary sample_clock))"
    by blast
  with e f a show ?thesis by blast
qed

text \<open>
  Claim C5 as stated fails, on a summary of the shape k6 produces: the report displays a
  P95 of \<open>0\<close> and its threshold \<open>p95_under_1000ms\<close> is false, although \<open>0 < 1000\<close>, while
  the 95th percentile of \<open>http_req_duration\<close> is 198 and that of
  \<open>mqtt_publish_response_time\<close>, on which the script declares \<open>p(95)<1000\<close>, is 150, so
  that the declared threshold passes.
\<close>

theorem report_percentiles_disagree:
  "rt_p95 (m_responseTime (pd_metrics (build_performanceData published_summary sample_clock)))
     = Num 0 \<and>
   \<not> p95_under_1000ms (pd_thresholds (build_performanceData published_summary sample_clock)) \<and>
   metric_value published_summary ''http_req_duration'' ''p(95)'' = Some 198 \<and>
   metric_value published_summary ''mqtt_publish_response_time'' ''p(95)'' = Some 150 \<and>
   (''mqtt_publish_response_time'', ''p(95)'', 1000) \<in> set mqtt_options_thresholds \<and>
   threshold_passes published_summary (''mqtt_publish_response_time'', ''p(95)'', 1000)"
proof -
  have v: "metric_value published_summary ''http_req_duration'' ''p95'' = None"
    by (simp add: published_summary_def metric_value_def)
  have u: "metric_value published_summary ''http_req_duration'' ''p(95)'' = Some 198"
    by (simp add: published_summary_def metric_value_def)
  have w: "metric_value published_summary ''mqtt_publish_response_time'' ''p(95)'' = Some 150"
    by (simp add: published_summary_def metric_value_def)
  have a: "rt_p95 (m_responseTime (pd_metrics
             (build_performanceData published_summary sample_clock))) = Num 0"
    by (simp add: build_performanceData_def Let_def v toFixed_or0_def)
  have b: "\<not> p95_under_1000ms
             (pd_thresholds (build_performanceData published_summary sample_clock))"
    by (simp add: thresholds_of_performanceData v toNumber_def)
  have c: "(''mqtt_publish_response_time'', ''p(95)'', 1000) \<in> set mqtt_options_thresholds"
    by (simp add: mqtt_options_thresholds_def)
  have d: "threshold_passes published_summary (''mqtt_publish_response_time'', ''p(95)'', 1000)"
    by (simp add: threshold_passes_def w toNumber_def)
  from a b u w c d show ?thesis by simp
qed

lemma metric_value_cong:
  "map_of (metrics (d1 :: summary)) m = map_of (metrics (d2 :: summary)) m \<Longrightarrow>
   metric_value d1 m p = metric_value d2 m p"
  by (simp add: metric_value_def)

lemma build_performanceData_cong:
  assumes "testRunDurationMs d1 = testRunDurationMs d2"
    and "\<And>p. metric_value d1 ''http_reqs'' p = metric_value d2 ''http_reqs'' p"
    and "\<And>p. metric_value d1 ''http_req_failed'' p = metric_value d2 ''http_req_failed'' p"
    and "\<And>p. metric_value d1 ''iterations'' p = metric_value d2 ''iterations'' p"
    and "\<And>p. metric_value d1 ''vus_max'' p = metric_value d2 ''vus_max'' p"
    and "\<And>p. metric_value d1 ''http_req_duration'' p = metric_value d2 ''http_req_duration'' p"
    and "\<And>p. metric_value d1 ''data_received'' p = metric_value d2 ''data_received'' p"
    and "\<And>p. metric_value d1 ''data_sent'' p = metric_value d2 ''data_sent'' p"
  shows "build_performanceData d1 clk = build_performanceData d2 clk"
  unfolding build_performanceData_def assms by (rule refl)

text \<open>
  Claim C5, as amended. The p95 and p99 that the MQTT report displays and the p95 and
  p99 that its thresholds block compares with 1000 and 2000 are read from the same
  property of \<open>http_req_duration\<close> in the same summary: displayed through
  \<open>toFixed(2)\<close>, or as 0 when absent; compared unrounded, with a false result when
  absent. \<open>http_req_duration\<close> is not a metric on which the script declares a threshold,
  the custom trend is not a metric that the report reads, and the report is the same
  for two summaries that agree on the metrics it reads.
\<close>

theorem report_percentiles_source:
  "rt_p95 (m_responseTime (pd_metrics (build_performanceData data clk)))
     = toFixed_or0 (metric_value data ''http_req_duration'' ''p95'') \<and>
   rt_p99 (m_responseTime (pd_metrics (build_performanceData data clk)))
     = toFixed_or0 (metric_value data ''http_req_duration'' ''p99'') \<and>
   p95_under_1000ms (pd_thresholds (build_performanceData data clk))
     = (\<exists>x. metric_value data ''http_req_duration'' ''p95'' = Some x \<and> x < 1000) \<and>
   p99_under_2000ms (pd_thresholds (build_performanceData data clk))
     = (\<exists>x. metric_value data ''http_req_duration'' ''p99'' = Some x \<and> x < 2000) \<and>
   ''http_req_duration'' \<notin> fst ` set mqtt_options_thresholds \<and>
   ''mqtt_publish_response_time'' \<notin> set mqtt_report_metrics \<and>
   (\<forall>data'. testRunDurationMs data' = testRunDurationMs data \<and>
       (\<forall>m \<in> set mqtt_report_metrics. map_of (metrics data') m = map_of (metrics data) m) \<longrightarrow>
       build_performanceData data' clk = build_performanceData data clk)"
proof (intro conjI allI impI)
  show "rt_p95 (m_responseTime (pd_metrics (build_performanceData data clk)))
     = toFixed_or0 (metric_value data ''http_req_duration'' ''p95'')"
    by (simp add: build_performanceData_def Let_def)
  show "rt_p99 (m_responseTime (pd_metrics (build_performanceData data clk)))
     = toFixed_or0 (metric_value data ''http_req_duration'' ''p99'')"
    by (simp add: build_performanceData_def Let_def)
  show "p95_under_1000ms (pd_thresholds (build_performanceData data clk))
     = (\<exists>x. metric_value data ''http_req_duration'' ''p95'' = Some x \<and> x < 1000)"
    by (simp add: thresholds_of_performanceData js_lt_toNumber)
  show "p99_under_2000ms (pd_thresholds (build_performanceData data clk))
     = (\<exists>x. metric_value data ''http_req_duration'' ''p99'' = Some x \<and> x < 2000)"
    by (simp add: thresholds_of_performanceData js_lt_toNumber)
  show "''http_req_duration'' \<notin> fst ` set mqtt_options_thresholds"
    by (simp add: mqtt_options_thresholds_def)
  show "''mqtt_publish_response_time'' \<notin> set mqtt_report_metrics"
    by (simp add: mqtt_report_metrics_def)
next
  fix data' :: summary
  assume h: "testRunDurationMs data' = testRunDurationMs data \<and>
       (\<forall>m \<in> set mqtt_report_metrics. map_of (metrics data') m = map_of (metrics data) m)"
  then have "\<And>m. m \<in> set mqtt_report_metrics \<Longrightarrow>
                map_of (metrics data') m = map_of (metrics data) m"
    by blast
  then have "\<And>m p. m \<in> set mqtt_report_metrics \<Longrightarrow>
                metric_value data' m p = metric_value data m p"
    by (rule metric_value_cong)
  then show "build_performanceData data' clk = build_performanceData data clk"
    using h by (intro build_performanceData_cong) (simp_all add: mqtt_report_metrics_def)
qed

theorem report_percentiles_source_witness:
  "testRunDurationMs slow_trend_summary = testRunDurationMs published_summary \<and>
   build_performanceData slow_trend_summary sample_clock
     = build_performanceData published_summary sample_clock \<and>
   metric_value published_summary ''http_req_duration'' ''p95'' = None \<and>
   rt_p95 (m_responseTime (pd_metrics (build_performanceData published_summary sample_clock)))
     = Num 0 \<and>
   \<not> p95_under_1000ms (pd_thresholds (build_performanceData published_summary sample_clock))"
proof -
  have t: "testRunDurationMs slow_trend_summary = testRunDurationMs published_summary"
    by (simp add: slow_trend_summary_def published_summary_def)
  have m: "\<forall>m \<in> set mqtt_report_metrics.
             map_of (metrics slow_trend_summary) m = map_of (metrics published_summary) m"
    by (simp add: mqtt_report_metrics_def slow_trend_summary_def published_summary_def)
  have v: "metric_value published_summary ''http_req_duration'' ''p95'' = None"
    by (simp add: published_summary_def metric_value_def)
  note r = report_percentiles_source[of published_summary sample_clock]
  from r[THEN conjunct1] v
  have d: "rt_p95 (m_responseTime (pd_metrics
             (build_performanceData published_summary sample_clock))) = Num 0"
    by (simp add: toFixed_or0_def)
  from r[THEN conjunct2, THEN conjunct2, THEN conjunct1] v
  have p: "\<not> p95_under_1000ms
             (pd_thresholds (build_performanceData published_summary sample_clock))"
    by simp
  from r[THEN conjunct2, THEN conjunct2, THEN conjunct2, THEN conjunct2, THEN conjunct2,
         THEN conjunct2, rule_format, of slow_trend_summary] t m
  have "build_performanceData slow_trend_summary sample_clock
          = build_performanceData published_summary sample_clock"
    by blast
  with t v d p show ?thesis by blast
qed

text \<open>
  Claim C7. Two invocations of \<open>handleSummary\<close> on the same summary data and coverage
  state, at whatever readings of the clock, produce artifacts that agree in everything
  but the readings of the clock: the same files with the same metric values in the
  coverage script, and the same metric values in the MQTT script.
\<close>

theorem handleSummary_metric_values_repeatable:
  "map (\<lambda>(f, a). (f, artifact_metrics a)) (handleSummary data isoNow1 st)
     = map (\<lambda>(f, a). (f, artifact_metrics a)) (handleSummary data isoNow2 st) \<and>
   map (\<lambda>(f, a). mqtt_artifact_metrics a) (mqtt_handleSummary data clk1)
     = map (\<lambda>(f, a). mqtt_artifact_metrics a) (mqtt_handleSummary data clk2)"
  by (simp add: handleSummary_def mqtt_handleSummary_def artifact_metrics_def
      mqtt_artifact_metrics_def performanceData_metrics_def build_coverageReport_def
      build_performanceData_def Let_def)

end
